theory Spec2Isabelle
  imports Complex_Main
begin

section \<open>Data model\<close>

text \<open>
  The rows of the hosted database as the TypeScript interfaces and the SQL schema declare
  them. Columns that the schema allows to be NULL are options. NUMERIC columns and the
  finite values of JavaScript numbers are exact rationals: rounding of doubles is not
  modelled, and nothing below depends on it. Identifiers are integers.
\<close>

datatype order_type = buy | sell

record trade =
  t_id :: int
  order_no :: string
  t_stock_code :: string
  t_stock_name :: string
  t_order_type :: order_type
  status :: string
  t_quantity :: int
  price :: rat
  executed_quantity :: "int option"
  executed_price :: "rat option"
  executed_at :: "string option"
  t_created_at :: string

record position =
  p_id :: int
  p_stock_code :: string
  p_stock_name :: string
  p_quantity :: int
  avg_price :: rat
  current_price :: rat
  total_cost :: rat
  market_value :: rat
  profit_loss :: rat
  profit_loss_rate :: rat

record strategy =
  s_id :: int
  s_name :: string
  max_loss_rate :: "int option"
  take_profit_rate :: "int option"

datatype json =
    JNull
  | JUndefined
  | JBool bool
  | JNum rat
  | JStr string
  | JObj "(string \<times> json) list"

datatype severity = info | warning | critical

record notification =
  n_id :: int
  n_type :: string
  title :: string
  message :: string
  n_severity :: severity
  n_data :: "(string \<times> json) list option"
  is_read :: bool
  read_at :: "string option"
  n_created_at :: string

text \<open>
  What the console receives. Only the fixed label of each call is kept, not the values
  printed after it.
\<close>

datatype log_entry = ConsoleLog string | ConsoleError string

text \<open>
  A call of the database client is awaited: the promise either rejects (the \<open>await\<close>
  throws) or resolves to the client's \<open>{data, error}\<close> object. The outcome of each call
  is an input of the model.
\<close>

datatype 'a db_reply = Reply "'a option" "string option"

datatype 'a settled = Resolved 'a | Rejected string


section \<open>Dashboard page: getPortfolioSummary\<close>

text \<open>
  A JavaScript number that an arithmetic expression can produce: a finite value, one of
  the two infinities, or NaN. The zero divisors that occur below come from a difference
  of two equal finite values, which is \<open>+0\<close>, so a single zero suffices.
\<close>

datatype jsnum = Fin rat | PInf | NInf | NaN

text \<open>\<open>a / b\<close> on finite operands.\<close>

definition js_div :: "rat \<Rightarrow> rat \<Rightarrow> jsnum" where
  "js_div a b =
     (if b = 0 then (if a = 0 then NaN else if 0 < a then PInf else NInf)
      else Fin (a / b))"

text \<open>\<open>x * c\<close> for a finite \<open>c\<close>.\<close>

fun js_times :: "jsnum \<Rightarrow> rat \<Rightarrow> jsnum" where
  "js_times (Fin a) c = Fin (a * c)"
| "js_times PInf c = (if c = 0 then NaN else if 0 < c then PInf else NInf)"
| "js_times NInf c = (if c = 0 then NaN else if 0 < c then NInf else PInf)"
| "js_times NaN c = NaN"

text \<open>\<open>v || 0\<close> on a number: a falsy number is replaced by 0.\<close>

definition or0 :: "rat \<Rightarrow> rat" where
  "or0 v = (if v = 0 then 0 else v)"

record summary =
  totalValue :: rat
  totalProfit :: rat
  profitRate :: jsnum
  positionCount :: nat
  todayTradeCount :: nat

text \<open>
  The two queries are the arguments: \<open>None\<close> is the \<open>null\<close> data of a failed query.
  \<open>portfolio?.reduce(...) || 0\<close> is 0 on \<open>null\<close>.
\<close>

definition getPortfolioSummary :: "position list option \<Rightarrow> trade list option \<Rightarrow> summary" where
  "getPortfolioSummary portfolio todayTrades =
     (let tv = (case portfolio of None \<Rightarrow> 0
                | Some ps \<Rightarrow> or0 (foldl (\<lambda>sum p. sum + or0 (market_value p)) 0 ps));
          tp = (case portfolio of None \<Rightarrow> 0
                | Some ps \<Rightarrow> or0 (foldl (\<lambda>sum p. sum + or0 (profit_loss p)) 0 ps));
          rate = (if 0 < tv then js_times (js_div tp (tv - tp)) 100 else Fin 0)
      in \<lparr> totalValue = tv, totalProfit = tp, profitRate = rate,
           positionCount = (case portfolio of None \<Rightarrow> 0 | Some ps \<Rightarrow> length ps),
           todayTradeCount = (case todayTrades of None \<Rightarrow> 0 | Some ts \<Rightarrow> length ts) \<rparr>)"

text \<open>
  The portfolio page computes its rate next to it, guarding the divisor itself:
  \<open>totalCost > 0 ? (totalProfit / totalCost) * 100 : 0\<close>.
\<close>

definition totalProfitRate :: "position list \<Rightarrow> jsnum" where
  "totalProfitRate ps =
     (let totalCost = foldl (\<lambda>sum p. sum + total_cost p) 0 ps;
          totalProfit = foldl (\<lambda>sum p. sum + profit_loss p) 0 ps
      in if 0 < totalCost then js_times (js_div totalProfit totalCost) 100 else Fin 0)"


section \<open>The useNotifications hook\<close>

record hook_state =
  notifications :: "notification list"
  unreadCount :: int
  isLoading :: bool

text \<open>
  The client side of the world: the hook's state, the notifications table the hook
  writes to, and the console.
\<close>

record client =
  hook :: hook_state
  table :: "notification list"
  console :: "log_entry list"

definition initial_hook :: hook_state where
  "initial_hook = \<lparr> notifications = [], unreadCount = 0, isLoading = True \<rparr>"

text \<open>
  \<open>fetchNotifications\<close>: the reply is that of the query for the 50 newest rows. An error
  in the reply is thrown and caught with a rejected promise; \<open>finally\<close> clears the
  loading flag on every path.
\<close>

definition fetchNotifications :: "notification list db_reply settled \<Rightarrow> client \<Rightarrow> client" where
  "fetchNotifications reply c =
     (case reply of
        Rejected e \<Rightarrow>
          c\<lparr> console := console c @ [ConsoleError ''Error fetching notifications:''],
             hook := (hook c)\<lparr> isLoading := False \<rparr> \<rparr>
      | Resolved (Reply d (Some e)) \<Rightarrow>
          c\<lparr> console := console c @ [ConsoleError ''Error fetching notifications:''],
             hook := (hook c)\<lparr> isLoading := False \<rparr> \<rparr>
      | Resolved (Reply d None) \<Rightarrow>
          c\<lparr> hook := (hook c)\<lparr>
               notifications := (case d of None \<Rightarrow> [] | Some rows \<Rightarrow> rows),
               unreadCount := (case d of None \<Rightarrow> 0
                               | Some rows \<Rightarrow> int (length (filter (\<lambda>n. \<not> is_read n) rows))),
               isLoading := False \<rparr> \<rparr>)"

text \<open>The two realtime callbacks.\<close>

definition onInsert :: "notification \<Rightarrow> hook_state \<Rightarrow> hook_state" where
  "onInsert n s =
     s\<lparr> notifications := take 50 (n # notifications s),
        unreadCount := unreadCount s + 1 \<rparr>"

definition onUpdate :: "notification \<Rightarrow> notification \<Rightarrow> hook_state \<Rightarrow> hook_state" where
  "onUpdate old new s =
     s\<lparr> notifications := map (\<lambda>n. if n_id n = n_id new then new else n) (notifications s),
        unreadCount := (if \<not> is_read old \<and> is_read new
                        then max 0 (unreadCount s - 1) else unreadCount s) \<rparr>"

text \<open>
  The write \<open>update({is_read: true, read_at: now}).eq(column, value)\<close> on the table, for
  the rows a predicate selects.
\<close>

definition update_read :: "string \<Rightarrow> (notification \<Rightarrow> bool) \<Rightarrow> notification list \<Rightarrow> notification list" where
  "update_read now sel rows =
     map (\<lambda>r. if sel r then r\<lparr> is_read := True, read_at := Some now \<rparr> else r) rows"

text \<open>
  The table changes when the reply carries no error. \<open>clock k\<close> is the \<open>k\<close>-th reading of
  \<open>new Date().toISOString()\<close> within one call.
\<close>

definition markAsRead :: "(nat \<Rightarrow> string) \<Rightarrow> int \<Rightarrow> unit db_reply settled \<Rightarrow> client \<Rightarrow> client" where
  "markAsRead clock i reply c =
     (case reply of
        Rejected e \<Rightarrow>
          c\<lparr> console := console c @ [ConsoleError ''Error marking notification as read:''] \<rparr>
      | Resolved (Reply d (Some e)) \<Rightarrow> c
      | Resolved (Reply d None) \<Rightarrow>
          c\<lparr> table := update_read (clock 0) (\<lambda>r. n_id r = i) (table c) \<rparr>)"

definition mark_local :: "(nat \<Rightarrow> string) \<Rightarrow> hook_state \<Rightarrow> hook_state" where
  "mark_local clock s =
     s\<lparr> notifications :=
          map (\<lambda>(k, n). n\<lparr> is_read := True, read_at := Some (clock (Suc k)) \<rparr>)
            (enumerate 0 (notifications s)),
        unreadCount := 0 \<rparr>"

definition markAllAsRead :: "(nat \<Rightarrow> string) \<Rightarrow> unit db_reply settled \<Rightarrow> client \<Rightarrow> client" where
  "markAllAsRead clock reply c =
     (case reply of
        Rejected e \<Rightarrow>
          c\<lparr> console := console c @ [ConsoleError ''Error marking all notifications as read:''] \<rparr>
      | Resolved (Reply d (Some e)) \<Rightarrow>
          c\<lparr> hook := mark_local clock (hook c) \<rparr>
      | Resolved (Reply d None) \<Rightarrow>
          c\<lparr> table := update_read (clock 0) (\<lambda>r. \<not> is_read r) (table c),
             hook := mark_local clock (hook c) \<rparr>)"

text \<open>Everything that can happen to a mounted hook, and a run of such events.\<close>

datatype hook_event =
    Fetch "notification list db_reply settled"
  | InsertEvent notification
  | UpdateEvent notification notification
  | MarkAsRead int "unit db_reply settled"
  | MarkAllAsRead "unit db_reply settled"

fun step :: "(nat \<Rightarrow> string) \<Rightarrow> client \<Rightarrow> hook_event \<Rightarrow> client" where
  "step clock c (Fetch reply) = fetchNotifications reply c"
| "step clock c (InsertEvent n) = c\<lparr> hook := onInsert n (hook c) \<rparr>"
| "step clock c (UpdateEvent old new) = c\<lparr> hook := onUpdate old new (hook c) \<rparr>"
| "step clock c (MarkAsRead i reply) = markAsRead clock i reply c"
| "step clock c (MarkAllAsRead reply) = markAllAsRead clock reply c"

definition run :: "(nat \<Rightarrow> string) \<Rightarrow> client \<Rightarrow> hook_event list \<Rightarrow> client" where
  "run clock c evs = foldl (step clock) c evs"

definition mounted :: "notification list \<Rightarrow> client" where
  "mounted rows = \<lparr> hook = initial_hook, table = rows, console = [] \<rparr>"

text \<open>The number of unread rows the hook holds.\<close>

definition unread_held :: "hook_state \<Rightarrow> int" where
  "unread_held s = int (length (filter (\<lambda>n. \<not> is_read n) (notifications s)))"


section \<open>The RecentTrades component\<close>

record recent_state =
  trades :: "trade list"
  newTradeIds :: "int set"

definition RecentTrades :: "trade list \<Rightarrow> recent_state" where
  "RecentTrades initialTrades = \<lparr> trades = initialTrades, newTradeIds = {} \<rparr>"

definition onNewTrade :: "recent_state \<Rightarrow> trade \<Rightarrow> recent_state" where
  "onNewTrade s t =
     s\<lparr> trades := take 5 (t # trades s), newTradeIds := insert (t_id t) (newTradeIds s) \<rparr>"

text \<open>The timer set by \<open>onNewTrade\<close>, three seconds later.\<close>

definition highlight_expired :: "recent_state \<Rightarrow> int \<Rightarrow> recent_state" where
  "highlight_expired s i = s\<lparr> newTradeIds := newTradeIds s - {i} \<rparr>"

definition onTradeUpdate :: "recent_state \<Rightarrow> trade \<Rightarrow> recent_state" where
  "onTradeUpdate s updatedTrade =
     s\<lparr> trades := map (\<lambda>t. if t_id t = t_id updatedTrade then updatedTrade else t) (trades s) \<rparr>"

text \<open>
  The effect \<open>useEffect(() => { setTrades(initialTrades) }, [initialTrades])\<close>: whenever
  the page hands the component a new \<open>initialTrades\<close> list, the held list is set to it.
\<close>

definition initialTradesChanged :: "recent_state \<Rightarrow> trade list \<Rightarrow> recent_state" where
  "initialTradesChanged s initialTrades = s\<lparr> trades := initialTrades \<rparr>"

text \<open>Everything that can happen to a mounted component, and a run of such events.\<close>

datatype recent_event =
    NewTrade trade
  | TradeUpdate trade
  | HighlightExpired int
  | InitialTrades "trade list"

fun recent_step :: "recent_state \<Rightarrow> recent_event \<Rightarrow> recent_state" where
  "recent_step s (NewTrade t) = onNewTrade s t"
| "recent_step s (TradeUpdate t) = onTradeUpdate s t"
| "recent_step s (HighlightExpired i) = highlight_expired s i"
| "recent_step s (InitialTrades ts) = initialTradesChanged s ts"

definition recent_run :: "recent_state \<Rightarrow> recent_event list \<Rightarrow> recent_state" where
  "recent_run s evs = foldl recent_step s evs"


section \<open>Text\<close>

text \<open>
  The titles and messages of notifications are Korean text. Each literal of the source is
  the list of its UTF-8 bytes; the comment gives its meaning.
\<close>

definition utf8 :: "nat list \<Rightarrow> string" where
  "utf8 bs = map char_of bs"

definition ko_buy :: string where \<comment> \<open>maesu: buy\<close>
  "ko_buy = utf8 [
    0xEB, 0xA7, 0xA4, 0xEC, 0x88, 0x98]"

definition ko_sell :: string where \<comment> \<open>maedo: sell\<close>
  "ko_sell = utf8 [
    0xEB, 0xA7, 0xA4, 0xEB, 0x8F, 0x84]"

definition ko_buy_filled :: string where \<comment> \<open>buy filled\<close>
  "ko_buy_filled = utf8 [
    0xEB, 0xA7, 0xA4, 0xEC, 0x88, 0x98, 0x20, 0xEC, 0xB2, 0xB4, 0xEA, 0xB2, 0xB0]"

definition ko_sell_filled :: string where \<comment> \<open>sell filled\<close>
  "ko_sell_filled = utf8 [
    0xEB, 0xA7, 0xA4, 0xEB, 0x8F, 0x84, 0x20, 0xEC, 0xB2, 0xB4, 0xEA, 0xB2, 0xB0]"

definition ko_buy_order :: string where \<comment> \<open>buy order\<close>
  "ko_buy_order = utf8 [
    0xEB, 0xA7, 0xA4, 0xEC, 0x88, 0x98, 0x20, 0xEC, 0xA3, 0xBC, 0xEB, 0xAC, 0xB8]"

definition ko_sell_order :: string where \<comment> \<open>sell order\<close>
  "ko_sell_order = utf8 [
    0xEB, 0xA7, 0xA4, 0xEB, 0x8F, 0x84, 0x20, 0xEC, 0xA3, 0xBC, 0xEB, 0xAC, 0xB8]"

definition ko_shares_at_won :: string where \<comment> \<open>shares, at, won sign\<close>
  "ko_shares_at_won = utf8 [
    0xEC, 0xA3, 0xBC, 0x20, 0x40, 0x20, 0xE2, 0x82, 0xA9]"

definition ko_stop_loss_warning :: string where \<comment> \<open>stop-loss line reached, warning\<close>
  "ko_stop_loss_warning = utf8 [
    0xEC, 0x86, 0x90, 0xEC, 0xA0, 0x88, 0xEC, 0x84, 0xA0, 0x20, 0xEB, 0x8F, 0x84, 0xEB,
    0x8B, 0xAC, 0x20, 0xEA, 0xB2, 0xBD, 0xEA, 0xB3, 0xA0]"

definition ko_loss_rate :: string where \<comment> \<open>loss rate\<close>
  "ko_loss_rate = utf8 [
    0x20, 0xEC, 0x86, 0x90, 0xEC, 0x8B, 0xA4, 0xEB, 0xA5, 0xA0, 0x20]"

definition ko_review_stop_loss :: string where \<comment> \<open>percent, stop-loss review needed\<close>
  "ko_review_stop_loss = utf8 [
    0x25, 0x20, 0x2D, 0x20, 0xEC, 0x86, 0x90, 0xEC, 0xA0, 0x88, 0x20, 0xEA, 0xB2, 0x80,
    0xED, 0x86, 0xA0, 0x20, 0xED, 0x95, 0x84, 0xEC, 0x9A, 0x94]"

definition ko_take_profit_reached :: string where \<comment> \<open>take-profit line reached\<close>
  "ko_take_profit_reached = utf8 [
    0xEC, 0x9D, 0xB5, 0xEC, 0xA0, 0x88, 0xEC, 0x84, 0xA0, 0x20, 0xEB, 0x8F, 0x84, 0xEB,
    0x8B, 0xAC]"

definition ko_profit_rate :: string where \<comment> \<open>profit rate\<close>
  "ko_profit_rate = utf8 [
    0x20, 0xEC, 0x88, 0x98, 0xEC, 0x9D, 0xB5, 0xEB, 0xA5, 0xA0, 0x20]"

definition ko_review_take_profit :: string where \<comment> \<open>percent, take-profit review\<close>
  "ko_review_take_profit = utf8 [
    0x25, 0x20, 0x2D, 0x20, 0xEC, 0x9D, 0xB5, 0xEC, 0xA0, 0x88, 0x20, 0xEA, 0xB2, 0x80,
    0xED, 0x86, 0xA0]"

definition ko_tag_order :: string where \<comment> \<open>[order]\<close>
  "ko_tag_order = utf8 [
    0x5B, 0xEC, 0xA3, 0xBC, 0xEB, 0xAC, 0xB8, 0x5D, 0x20]"

definition ko_tag_filled :: string where \<comment> \<open>[filled]\<close>
  "ko_tag_filled = utf8 [
    0x5B, 0xEC, 0xB2, 0xB4, 0xEA, 0xB2, 0xB0, 0x5D, 0x20]"

definition ko_order_suffix :: string where \<comment> \<open>order\<close>
  "ko_order_suffix = utf8 [
    0x20, 0xEC, 0xA3, 0xBC, 0xEB, 0xAC, 0xB8]"

definition ko_filled_done :: string where \<comment> \<open>fill completed\<close>
  "ko_filled_done = utf8 [
    0x20, 0xEC, 0xB2, 0xB4, 0xEA, 0xB2, 0xB0, 0x20, 0xEC, 0x99, 0x84, 0xEB, 0xA3, 0x8C]"

definition ko_stop_loss_reached :: string where \<comment> \<open>stop-loss line reached\<close>
  "ko_stop_loss_reached = utf8 [
    0xEC, 0x86, 0x90, 0xEC, 0xA0, 0x88, 0xEC, 0x84, 0xA0, 0x20, 0xEB, 0x8F, 0x84, 0xEB,
    0x8B, 0xAC]"

definition ko_price_alert :: string where \<comment> \<open>price alert\<close>
  "ko_price_alert = utf8 [
    0xEA, 0xB0, 0x80, 0xEA, 0xB2, 0xA9, 0x20, 0xEC, 0x95, 0x8C, 0xEB, 0xA6, 0xBC]"

definition ko_system_error :: string where \<comment> \<open>system error\<close>
  "ko_system_error = utf8 [
    0xEC, 0x8B, 0x9C, 0xEC, 0x8A, 0xA4, 0xED, 0x85, 0x9C, 0x20, 0xEC, 0x98, 0xA4, 0xEB,
    0xA5, 0x98]"

definition ko_alert :: string where \<comment> \<open>alert\<close>
  "ko_alert = utf8 [
    0xEC, 0x95, 0x8C, 0xEB, 0xA6, 0xBC]"

text \<open>
  How a number becomes text is the business of PostgreSQL and of the JavaScript runtime:
  the four conversions the code uses are parameters. \<open>int_text\<close> and \<open>numeric_text\<close>
  are the implicit casts of the SQL operator \<open>||\<close>, \<open>number_text\<close> is a number inside
  a template literal, \<open>toLocaleString\<close> is the method of that name.
\<close>

record rendering =
  int_text :: "int \<Rightarrow> string"
  numeric_text :: "rat \<Rightarrow> string"
  number_text :: "rat \<Rightarrow> string"
  toLocaleString :: "rat \<Rightarrow> string"

text \<open>\<open>ROUND(x, 2)\<close> on a numeric: to two decimals, ties away from zero.\<close>

definition round2 :: "rat \<Rightarrow> rat" where
  "round2 x = sgn x * of_int \<lfloor>\<bar>x\<bar> * 100 + 1 / 2\<rfloor> / 100"

definition order_type_text :: "order_type \<Rightarrow> string" where
  "order_type_text ot = (case ot of buy \<Rightarrow> ''buy'' | sell \<Rightarrow> ''sell'')"


section \<open>The database: notifications table and trigger functions\<close>

datatype tg_op = INSERT | UPDATE | DELETE

record webhook_payload =
  wp_type :: tg_op
  wp_table :: string
  wp_record :: trade
  wp_old_record :: "trade option"
  wp_schema :: string

text \<open>
  The part of the database the triggers can see: the notifications table with its
  sequence, the strategies table, and the messages sent on the \<open>trade_changes\<close> channel.
\<close>

record db =
  notifications_tbl :: "notification list"
  notifications_seq :: int
  strategies_tbl :: "strategy list"
  trade_changes :: "webhook_payload list"

datatype sql_error = not_null_violation string

text \<open>The operator \<open>||\<close> over a list of operands: NULL if any operand is NULL.\<close>

fun sql_cat :: "string option list \<Rightarrow> string option" where
  "sql_cat [] = Some []"
| "sql_cat (None # xs) = None"
| "sql_cat (Some s # xs) = (case sql_cat xs of None \<Rightarrow> None | Some t \<Rightarrow> Some (s @ t))"

text \<open>
  A new row of the notifications table: the identifier comes from the sequence,
  \<open>is_read\<close> and \<open>read_at\<close> take their defaults.
\<close>

definition append_notification ::
  "string \<Rightarrow> string \<Rightarrow> string \<Rightarrow> severity \<Rightarrow> (string \<times> json) list option \<Rightarrow> string \<Rightarrow> db \<Rightarrow> db" where
  "append_notification ty ti msg sev dat created d =
     d\<lparr> notifications_seq := notifications_seq d + 1,
        notifications_tbl := notifications_tbl d @
          [\<lparr> n_id = notifications_seq d + 1, n_type = ty, title = ti, message = msg,
             n_severity = sev, n_data = dat, is_read = False, read_at = None,
             n_created_at = created \<rparr>] \<rparr>"

text \<open>
  \<open>INSERT INTO notifications\<close> inside a trigger function: \<open>title\<close> and \<open>message\<close> are
  NOT NULL, and a violation aborts the statement that fired the trigger.
\<close>

definition insert_notification ::
  "string \<Rightarrow> string option \<Rightarrow> string option \<Rightarrow> severity \<Rightarrow> (string \<times> json) list option
     \<Rightarrow> string \<Rightarrow> db \<Rightarrow> sql_error + db" where
  "insert_notification ty ti msg sev dat created d =
     (case ti of
        None \<Rightarrow> Inl (not_null_violation ''title'')
      | Some t \<Rightarrow>
          (case msg of
             None \<Rightarrow> Inl (not_null_violation ''message'')
           | Some m \<Rightarrow> Inr (append_notification ty t m sev dat created d)))"

definition trade_data :: "trade \<Rightarrow> (string \<times> json) list" where
  "trade_data t =
     [(''trade_id'', JNum (of_int (t_id t))),
      (''stock_code'', JStr (t_stock_code t)),
      (''order_type'', JStr (order_type_text (t_order_type t)))]"

text \<open>
  \<open>notify_trade_changes\<close>; \<open>now\<close> is \<open>NOW()\<close>. \<open>OLD\<close> is absent on an insert.
\<close>

definition notify_trade_changes ::
  "rendering \<Rightarrow> string \<Rightarrow> tg_op \<Rightarrow> trade option \<Rightarrow> trade \<Rightarrow> db \<Rightarrow> sql_error + db" where
  "notify_trade_changes r now TG_OP OLD NEW d =
     (let payload = \<lparr> wp_type = TG_OP, wp_table = ''trades'', wp_record = NEW,
                      wp_old_record = (if TG_OP = UPDATE then OLD else None),
                      wp_schema = ''public'' \<rparr>;
          d1 = d\<lparr> trade_changes := trade_changes d @ [payload] \<rparr>;
          r1 = (if TG_OP = UPDATE
                   \<and> (case OLD of None \<Rightarrow> False | Some old \<Rightarrow> status old \<noteq> ''executed'')
                   \<and> status NEW = ''executed''
                then insert_notification ''trade_executed''
                       (Some (if t_order_type NEW = buy then ko_buy_filled else ko_sell_filled))
                       (sql_cat [Some (t_stock_name NEW), Some '' '',
                                 Some (if t_order_type NEW = buy then ko_buy else ko_sell),
                                 Some '' '',
                                 map_option (int_text r) (executed_quantity NEW),
                                 Some ko_shares_at_won,
                                 map_option (numeric_text r) (executed_price NEW)])
                       info (Some (trade_data NEW)) now d1
                else Inr d1)
      in case r1 of
           Inl e \<Rightarrow> Inl e
         | Inr d2 \<Rightarrow>
             if TG_OP = INSERT
             then insert_notification ''trade_new''
                    (Some (if t_order_type NEW = buy then ko_buy_order else ko_sell_order))
                    (sql_cat [Some (t_stock_name NEW), Some '' '',
                              Some (if t_order_type NEW = buy then ko_buy else ko_sell),
                              Some '' '',
                              Some (int_text r (t_quantity NEW)),
                              Some ko_shares_at_won,
                              Some (numeric_text r (price NEW))])
                    info (Some (trade_data NEW)) now d2
             else Inr d2)"

text \<open>\<open>AFTER INSERT OR UPDATE ON trades FOR EACH ROW\<close>.\<close>

definition trigger_notify_trade_changes ::
  "rendering \<Rightarrow> string \<Rightarrow> tg_op \<Rightarrow> trade option \<Rightarrow> trade \<Rightarrow> db \<Rightarrow> sql_error + db" where
  "trigger_notify_trade_changes r now TG_OP OLD NEW d =
     (if TG_OP = INSERT \<or> TG_OP = UPDATE then notify_trade_changes r now TG_OP OLD NEW d
      else Inr d)"

definition loss_threshold :: rat where
  "loss_threshold = 5"

definition profit_threshold :: rat where
  "profit_threshold = 10"

definition position_data :: "position \<Rightarrow> (string \<times> json) list" where
  "position_data p =
     [(''portfolio_id'', JNum (of_int (p_id p))),
      (''stock_code'', JStr (p_stock_code p)),
      (''profit_loss_rate'', JNum (profit_loss_rate p)),
      (''current_price'', JNum (current_price p)),
      (''avg_price'', JNum (avg_price p))]"

definition check_portfolio_alerts ::
  "rendering \<Rightarrow> string \<Rightarrow> position \<Rightarrow> db \<Rightarrow> sql_error + db" where
  "check_portfolio_alerts r now NEW d =
     (let r1 = (if profit_loss_rate NEW \<le> - loss_threshold
                then insert_notification ''stop_loss'' (Some ko_stop_loss_warning)
                       (sql_cat [Some (p_stock_name NEW), Some ko_loss_rate,
                                 Some (numeric_text r (round2 \<bar>profit_loss_rate NEW\<bar>)),
                                 Some ko_review_stop_loss])
                       critical (Some (position_data NEW)) now d
                else Inr d)
      in case r1 of
           Inl e \<Rightarrow> Inl e
         | Inr d1 \<Rightarrow>
             if profit_threshold \<le> profit_loss_rate NEW
             then insert_notification ''take_profit'' (Some ko_take_profit_reached)
                    (sql_cat [Some (p_stock_name NEW), Some ko_profit_rate,
                              Some (numeric_text r (round2 (profit_loss_rate NEW))),
                              Some ko_review_take_profit])
                    info (Some (position_data NEW)) now d1
             else Inr d1)"

text \<open>
  \<open>AFTER UPDATE ON portfolio FOR EACH ROW WHEN (OLD.profit_loss_rate IS DISTINCT FROM
  NEW.profit_loss_rate)\<close>; the column is NOT NULL.
\<close>

definition trigger_check_portfolio_alerts ::
  "rendering \<Rightarrow> string \<Rightarrow> position \<Rightarrow> position \<Rightarrow> db \<Rightarrow> sql_error + db" where
  "trigger_check_portfolio_alerts r now OLD NEW d =
     (if profit_loss_rate OLD \<noteq> profit_loss_rate NEW then check_portfolio_alerts r now NEW d
      else Inr d)"

text \<open>The rows of a type, and the rows a step has added to the table.\<close>

definition rows_of_type :: "string \<Rightarrow> db \<Rightarrow> notification list" where
  "rows_of_type ty d = filter (\<lambda>n. n_type n = ty) (notifications_tbl d)"

definition added_rows :: "db \<Rightarrow> db \<Rightarrow> notification list" where
  "added_rows d d' = drop (length (notifications_tbl d)) (notifications_tbl d')"


section \<open>The serverless handlers\<close>

text \<open>
  What a handler reads from its surroundings: the environment variables. What it changes:
  the database, the console, and the requests that reached the outbound webhook. The
  outcome of the one insert and of the one \<open>fetch\<close> a request can make are arguments of
  the handler.
\<close>

record env =
  NOTIFICATION_WEBHOOK_URL :: "string option"
  EMAIL_API_KEY :: "string option"
  ALERT_EMAIL :: "string option"
  SMS_API_KEY :: "string option"
  ALERT_PHONE :: "string option"

text \<open>A response of \<open>fetch\<close>: its \<open>ok\<close> flag and its status.\<close>

datatype http_result = HttpResponse bool nat

record webhook_post =
  post_url :: string
  post_body :: "(string \<times> json) list"

record edge =
  edge_db :: db
  edge_console :: "log_entry list"
  edge_posts :: "webhook_post list"

text \<open>A request: its method, and what \<open>req.json()\<close> gives (\<open>Inl\<close> when it throws).\<close>

record 'a request =
  req_method :: string
  req_json :: "string + 'a"

datatype body = BodyText string | BodySuccess string | BodyFailure string

record response =
  resp_status :: nat
  resp_body :: body

definition truthy :: "string option \<Rightarrow> bool" where
  "truthy s = (case s of None \<Rightarrow> False | Some x \<Rightarrow> x \<noteq> [])"

definition log :: "log_entry \<Rightarrow> edge \<Rightarrow> edge" where
  "log l w = w\<lparr> edge_console := edge_console w @ [l] \<rparr>"

text \<open>
  \<open>await supabase.from("notifications").insert(row)\<close>: the second component is the
  exception, if the \<open>await\<close> throws. An error inside the reply is not looked at.
\<close>

definition client_insert ::
  "unit db_reply settled \<Rightarrow> string \<Rightarrow> string \<Rightarrow> string \<Rightarrow> severity
     \<Rightarrow> (string \<times> json) list \<Rightarrow> string \<Rightarrow> edge \<Rightarrow> edge \<times> string option" where
  "client_insert reply ty ti msg sev dat created w =
     (case reply of
        Rejected e \<Rightarrow> (w, Some e)
      | Resolved (Reply d (Some e)) \<Rightarrow> (w, None)
      | Resolved (Reply d None) \<Rightarrow>
          (w\<lparr> edge_db := append_notification ty ti msg sev (Some dat) created (edge_db w) \<rparr>,
           None))"

text \<open>A property whose value is \<open>undefined\<close> is left out of the JSON text.\<close>

definition defined_only :: "(string \<times> json) list \<Rightarrow> (string \<times> json) list" where
  "defined_only kvs = filter (\<lambda>kv. snd kv \<noteq> JUndefined) kvs"

subsection \<open>notify-trade\<close>

definition json_of_trade :: "trade \<Rightarrow> json" where
  "json_of_trade t = JObj
     [(''id'', JNum (of_int (t_id t))),
      (''order_no'', JStr (order_no t)),
      (''stock_code'', JStr (t_stock_code t)),
      (''stock_name'', JStr (t_stock_name t)),
      (''order_type'', JStr (order_type_text (t_order_type t))),
      (''status'', JStr (status t)),
      (''quantity'', JNum (of_int (t_quantity t))),
      (''price'', JNum (price t)),
      (''executed_quantity'',
         (case executed_quantity t of None \<Rightarrow> JNull | Some q \<Rightarrow> JNum (of_int q))),
      (''executed_price'', (case executed_price t of None \<Rightarrow> JNull | Some p \<Rightarrow> JNum p)),
      (''executed_at'', (case executed_at t of None \<Rightarrow> JNull | Some a \<Rightarrow> JStr a)),
      (''created_at'', JStr (t_created_at t))]"

definition sendWebhookNotification ::
  "env \<Rightarrow> http_result settled \<Rightarrow> string \<Rightarrow> string \<Rightarrow> string \<Rightarrow> json \<Rightarrow> edge \<Rightarrow> edge" where
  "sendWebhookNotification ev fetched now ty msg dat w =
     (if \<not> truthy (NOTIFICATION_WEBHOOK_URL ev)
      then log (ConsoleLog ''No webhook URL configured, skipping external notification'') w
      else
        (case fetched of
           Rejected e \<Rightarrow> log (ConsoleError ''Error sending webhook notification:'') w
         | Resolved (HttpResponse ok st) \<Rightarrow>
             (let w1 = w\<lparr> edge_posts := edge_posts w @
                          [\<lparr> post_url = the (NOTIFICATION_WEBHOOK_URL ev),
                             post_body = [(''type'', JStr ty), (''message'', JStr msg),
                                          (''data'', dat), (''timestamp'', JStr now)] \<rparr>] \<rparr>
              in if \<not> ok then log (ConsoleError ''Webhook notification failed:'') w1 else w1)))"

text \<open>The \<open>data\<close> property of the row both functions insert.\<close>

definition handler_data :: "trade \<Rightarrow> (string \<times> json) list" where
  "handler_data t =
     [(''trade_id'', JNum (of_int (t_id t))), (''stock_code'', JStr (t_stock_code t))]"

definition action :: "trade \<Rightarrow> string" where
  "action t = (if t_order_type t = buy then ko_buy else ko_sell)"

text \<open>The \<open>message\<close> constant of \<open>sendNewTradeNotification\<close>.\<close>

definition new_trade_message :: "rendering \<Rightarrow> trade \<Rightarrow> string" where
  "new_trade_message r t =
     ko_tag_order @ t_stock_name t @ '' '' @ action t @ '' ''
       @ number_text r (of_int (t_quantity t)) @ ko_shares_at_won
       @ toLocaleString r (price t)"

definition sendNewTradeNotification ::
  "rendering \<Rightarrow> env \<Rightarrow> string \<Rightarrow> unit db_reply settled \<Rightarrow> http_result settled \<Rightarrow> trade
     \<Rightarrow> edge \<Rightarrow> edge \<times> string option" where
  "sendNewTradeNotification r ev now inserted fetched t w =
     (let msg = new_trade_message r t;
          w1 = log (ConsoleLog ''New trade notification:'') w;
          (w2, thrown) = client_insert inserted ''trade_new'' (action t @ ko_order_suffix) msg info
                           (handler_data t) now w1
      in case thrown of
           Some e \<Rightarrow> (w2, Some e)
         | None \<Rightarrow> (sendWebhookNotification ev fetched now ''trade_new'' msg (json_of_trade t) w2,
                     None))"

text \<open>
  The \<open>message\<close> constant of \<open>sendTradeExecutedNotification\<close>;
  \<open>trade.executed_price || trade.price\<close> falls back on a price that is null or 0.
\<close>

definition executed_message :: "rendering \<Rightarrow> trade \<Rightarrow> string" where
  "executed_message r t =
     (let executedPrice = (case executed_price t of None \<Rightarrow> price t
                           | Some p \<Rightarrow> if p = 0 then price t else p)
      in ko_tag_filled @ t_stock_name t @ '' '' @ action t @ '' ''
           @ (case executed_quantity t of None \<Rightarrow> ''null''
              | Some q \<Rightarrow> number_text r (of_int q))
           @ ko_shares_at_won @ toLocaleString r executedPrice)"

definition sendTradeExecutedNotification ::
  "rendering \<Rightarrow> env \<Rightarrow> string \<Rightarrow> unit db_reply settled \<Rightarrow> http_result settled \<Rightarrow> trade
     \<Rightarrow> edge \<Rightarrow> edge \<times> string option" where
  "sendTradeExecutedNotification r ev now inserted fetched t w =
     (let msg = executed_message r t;
          w1 = log (ConsoleLog ''Trade executed notification:'') w;
          (w2, thrown) = client_insert inserted ''trade_executed'' (action t @ ko_filled_done) msg
                           info
                           (handler_data t) now w1
      in case thrown of
           Some e \<Rightarrow> (w2, Some e)
         | None \<Rightarrow> (sendWebhookNotification ev fetched now ''trade_executed'' msg
                       (json_of_trade t) w2,
                     None))"

text \<open>
  The condition under which the handler takes an update for an execution: the old
  record may be missing from the payload.
\<close>

definition executed_update :: "webhook_payload \<Rightarrow> bool" where
  "executed_update payload =
     (wp_type payload = UPDATE
      \<and> (case wp_old_record payload of None \<Rightarrow> True | Some old \<Rightarrow> status old \<noteq> ''executed'')
      \<and> status (wp_record payload) = ''executed'')"

definition serve_notify_trade ::
  "rendering \<Rightarrow> env \<Rightarrow> string \<Rightarrow> unit db_reply settled \<Rightarrow> http_result settled
     \<Rightarrow> webhook_payload request \<Rightarrow> edge \<Rightarrow> response \<times> edge" where
  "serve_notify_trade r ev now inserted fetched req w =
     (if req_method req = ''OPTIONS''
      then (\<lparr> resp_status = 200, resp_body = BodyText ''ok'' \<rparr>, w)
      else
        (case req_json req of
           Inl e \<Rightarrow>
             (\<lparr> resp_status = 500, resp_body = BodyFailure e \<rparr>,
              log (ConsoleError ''Error processing notification:'') w)
         | Inr payload \<Rightarrow>
             (let w1 = log (ConsoleLog ''Trade notification triggered:'') w;
                  (w2, thrown) =
                    (if executed_update payload
                     then sendTradeExecutedNotification r ev now inserted fetched
                            (wp_record payload) w1
                     else (w1, None));
                  (w3, thrown') =
                    (if thrown = None \<and> wp_type payload = INSERT
                     then sendNewTradeNotification r ev now inserted fetched
                            (wp_record payload) w2
                     else (w2, thrown))
              in case thrown' of
                   Some e \<Rightarrow>
                     (\<lparr> resp_status = 500, resp_body = BodyFailure e \<rparr>,
                      log (ConsoleError ''Error processing notification:'') w3)
                 | None \<Rightarrow>
                     (\<lparr> resp_status = 200, resp_body = BodySuccess ''Notification processed'' \<rparr>,
                      w3))))"

subsection \<open>notify-alert\<close>

record alert_request =
  a_type :: "string option"
  a_stock_code :: "string option"
  a_stock_name :: "string option"
  a_message :: "string option"
  a_severity :: "severity option"
  a_data :: "(string \<times> json) list option"

definition json_opt :: "string option \<Rightarrow> json" where
  "json_opt s = (case s of None \<Rightarrow> JUndefined | Some x \<Rightarrow> JStr x)"

text \<open>\<open>{...base, ...extra}\<close>: a key of \<open>extra\<close> replaces the value where the key stands.\<close>

fun assign :: "string \<Rightarrow> json \<Rightarrow> (string \<times> json) list \<Rightarrow> (string \<times> json) list" where
  "assign k v [] = [(k, v)]"
| "assign k v (p # ps) = (if fst p = k then (k, v) # ps else p # assign k v ps)"

definition spread :: "(string \<times> json) list \<Rightarrow> (string \<times> json) list option \<Rightarrow> (string \<times> json) list" where
  "spread base extra =
     (case extra of None \<Rightarrow> base | Some kvs \<Rightarrow> foldl (\<lambda>acc kv. assign (fst kv) (snd kv) acc) base kvs)"

definition alert_data :: "alert_request \<Rightarrow> (string \<times> json) list" where
  "alert_data a =
     defined_only (spread [(''stock_code'', json_opt (a_stock_code a)),
                           (''stock_name'', json_opt (a_stock_name a))] (a_data a))"

definition titles :: "string \<Rightarrow> string option" where
  "titles ty =
     (if ty = ''stop_loss'' then Some ko_stop_loss_reached
      else if ty = ''take_profit'' then Some ko_take_profit_reached
      else if ty = ''price_alert'' then Some ko_price_alert
      else if ty = ''system_error'' then Some ko_system_error
      else None)"

definition severity_text :: "severity \<Rightarrow> string" where
  "severity_text s = (case s of info \<Rightarrow> ''info'' | warning \<Rightarrow> ''warning'' | critical \<Rightarrow> ''critical'')"

definition sendUrgentNotification :: "env \<Rightarrow> alert_request \<Rightarrow> edge \<Rightarrow> edge" where
  "sendUrgentNotification ev a w =
     (let w1 = log (ConsoleLog ''URGENT ALERT:'') w;
          w2 = (if truthy (EMAIL_API_KEY ev) \<and> truthy (ALERT_EMAIL ev)
                then log (ConsoleLog ''Would send email to'') w1 else w1)
      in if truthy (SMS_API_KEY ev) \<and> truthy (ALERT_PHONE ev)
         then log (ConsoleLog ''Would send SMS to'') w2 else w2)"

definition sendWebhookNotification_alert ::
  "env \<Rightarrow> http_result settled \<Rightarrow> string \<Rightarrow> alert_request \<Rightarrow> edge \<Rightarrow> edge" where
  "sendWebhookNotification_alert ev fetched now a w =
     (if \<not> truthy (NOTIFICATION_WEBHOOK_URL ev)
      then log (ConsoleLog ''No webhook URL configured, skipping external notification'') w
      else
        (case fetched of
           Rejected e \<Rightarrow> log (ConsoleError ''Error sending webhook notification:'') w
         | Resolved (HttpResponse ok st) \<Rightarrow>
             (let w1 = w\<lparr> edge_posts := edge_posts w @
                          [\<lparr> post_url = the (NOTIFICATION_WEBHOOK_URL ev),
                             post_body = defined_only
                               [(''type'', JStr (''alert_'' @ the (a_type a))),
                                (''message'', json_opt (a_message a)),
                                (''severity'',
                                   (case a_severity a of None \<Rightarrow> JUndefined
                                    | Some s \<Rightarrow> JStr (severity_text s))),
                                (''data'', JObj (alert_data a)),
                                (''timestamp'', JStr now)] \<rparr>] \<rparr>
              in if \<not> ok then log (ConsoleError ''Webhook notification failed:'') w1 else w1)))"

text \<open>
  \<open>processAlert\<close> is reached with a type and a message that are not empty. A severity
  that the request leaves out takes the column default.
\<close>

definition processAlert ::
  "env \<Rightarrow> string \<Rightarrow> unit db_reply settled \<Rightarrow> http_result settled \<Rightarrow> alert_request
     \<Rightarrow> edge \<Rightarrow> edge \<times> string option" where
  "processAlert ev now inserted fetched a w =
     (let ti = (case titles (the (a_type a)) of None \<Rightarrow> ko_alert | Some t \<Rightarrow> t);
          (w1, thrown) = client_insert inserted (the (a_type a)) ti (the (a_message a))
                           (case a_severity a of None \<Rightarrow> info | Some s \<Rightarrow> s)
                           (alert_data a) now w
      in case thrown of
           Some e \<Rightarrow> (w1, Some e)
         | None \<Rightarrow>
             (let w2 = (if a_severity a = Some critical then sendUrgentNotification ev a w1
                        else w1)
              in (sendWebhookNotification_alert ev fetched now a w2, None)))"

definition serve_notify_alert ::
  "env \<Rightarrow> string \<Rightarrow> unit db_reply settled \<Rightarrow> http_result settled
     \<Rightarrow> alert_request request \<Rightarrow> edge \<Rightarrow> response \<times> edge" where
  "serve_notify_alert ev now inserted fetched req w =
     (if req_method req = ''OPTIONS''
      then (\<lparr> resp_status = 200, resp_body = BodyText ''ok'' \<rparr>, w)
      else
        (case req_json req of
           Inl e \<Rightarrow>
             (\<lparr> resp_status = 500, resp_body = BodyFailure e \<rparr>,
              log (ConsoleError ''Error processing alert:'') w)
         | Inr a \<Rightarrow>
             (let w1 = log (ConsoleLog ''Alert notification triggered:'') w
              in if \<not> truthy (a_type a) \<or> \<not> truthy (a_message a)
                 then (\<lparr> resp_status = 400,
                         resp_body = BodyFailure ''Missing required fields: type, message'' \<rparr>,
                       w1)
                 else
                   (case processAlert ev now inserted fetched a w1 of
                      (w2, Some e) \<Rightarrow>
                        (\<lparr> resp_status = 500, resp_body = BodyFailure e \<rparr>,
                         log (ConsoleError ''Error processing alert:'') w2)
                    | (w2, None) \<Rightarrow>
                        (\<lparr> resp_status = 200, resp_body = BodySuccess ''Alert processed'' \<rparr>,
                         w2)))))"

text \<open>The ways the outbound relay can fail: no URL, a rejected \<open>fetch\<close>, a response that is not OK.\<close>

definition relay_fails :: "env \<Rightarrow> http_result settled \<Rightarrow> bool" where
  "relay_fails ev fetched =
     (\<not> truthy (NOTIFICATION_WEBHOOK_URL ev)
      \<or> (case fetched of Rejected e \<Rightarrow> True | Resolved (HttpResponse ok st) \<Rightarrow> \<not> ok))"

text \<open>What a handler has written to the console.\<close>

definition new_logs :: "edge \<Rightarrow> edge \<Rightarrow> log_entry list" where
  "new_logs w w' = drop (length (edge_console w)) (edge_console w')"

definition relay_logged :: "log_entry list \<Rightarrow> bool" where
  "relay_logged ls =
     (ConsoleLog ''No webhook URL configured, skipping external notification'' \<in> set ls
      \<or> ConsoleError ''Error sending webhook notification:'' \<in> set ls
      \<or> ConsoleError ''Webhook notification failed:'' \<in> set ls)"

text \<open>The branch of \<open>processAlert\<close> for a critical alert.\<close>

definition urgent :: "env \<Rightarrow> alert_request \<Rightarrow> edge \<Rightarrow> edge" where
  "urgent ev a w = (if a_severity a = Some critical then sendUrgentNotification ev a w else w)"


section \<open>Sample inputs\<close>

text \<open>
  Concrete values at which the statements below are evaluated. The sample rendering
  gives the texts of the sample trade's quantity and price.
\<close>

definition sample_position :: position where
  "sample_position = \<lparr> p_id = 1, p_stock_code = ''005930'', p_stock_name = ''Samsung'',
     p_quantity = 10, avg_price = 0, current_price = 10, total_cost = 0,
     market_value = 100, profit_loss = 100, profit_loss_rate = 0 \<rparr>"

definition unread_row :: "int \<Rightarrow> notification" where
  "unread_row i = \<lparr> n_id = i, n_type = ''trade_new'', title = ''order'', message = ''order'',
     n_severity = info, n_data = None, is_read = False, read_at = None,
     n_created_at = ''2026-02-04T09:00:00Z'' \<rparr>"

definition sample_clock :: "nat \<Rightarrow> string" where
  "sample_clock k = ''2026-02-04T09:00:01Z''"

definition sample_client :: client where
  "sample_client =
     \<lparr> hook = \<lparr> notifications = [unread_row 1], unreadCount = 1, isLoading = False \<rparr>,
       table = [unread_row 1], console = [] \<rparr>"

definition sample_rendering :: rendering where
  "sample_rendering = \<lparr> int_text = (\<lambda>i. ''10''), numeric_text = (\<lambda>x. ''70000.00''),
     number_text = (\<lambda>x. ''10''), toLocaleString = (\<lambda>x. ''70,000'') \<rparr>"

definition sample_env :: env where
  "sample_env = \<lparr> NOTIFICATION_WEBHOOK_URL = None, EMAIL_API_KEY = None, ALERT_EMAIL = None,
     SMS_API_KEY = None, ALERT_PHONE = None \<rparr>"

definition pending_trade :: trade where
  "pending_trade = \<lparr> t_id = 1, order_no = ''A-1'', t_stock_code = ''005930'',
     t_stock_name = ''Samsung'', t_order_type = buy, status = ''pending'', t_quantity = 10,
     price = 70000, executed_quantity = Some 0, executed_price = None, executed_at = None,
     t_created_at = ''2026-02-04T09:00:00Z'' \<rparr>"

definition executed_trade :: trade where
  "executed_trade = pending_trade\<lparr> status := ''executed'', executed_quantity := Some 10,
     executed_price := Some 70000, executed_at := Some ''2026-02-04T09:00:05Z'' \<rparr>"

definition sample_trade :: "int \<Rightarrow> trade" where
  "sample_trade i = pending_trade\<lparr> t_id := i \<rparr>"

definition empty_db :: db where
  "empty_db = \<lparr> notifications_tbl = [], notifications_seq = 0, strategies_tbl = [],
     trade_changes = [] \<rparr>"

definition empty_edge :: edge where
  "empty_edge = \<lparr> edge_db = empty_db, edge_console = [], edge_posts = [] \<rparr>"

definition update_payload :: webhook_payload where
  "update_payload = \<lparr> wp_type = UPDATE, wp_table = ''trades'', wp_record = executed_trade,
     wp_old_record = Some pending_trade, wp_schema = ''public'' \<rparr>"

definition update_request :: "webhook_payload request" where
  "update_request = \<lparr> req_method = ''POST'', req_json = Inr update_payload \<rparr>"

text \<open>The database after the trigger has run for the sample update.\<close>

definition after_trigger :: "sql_error + db" where
  "after_trigger = trigger_notify_trade_changes sample_rendering ''2026-02-04T09:00:05Z''
     UPDATE (Some pending_trade) executed_trade empty_db"

definition sample_alert :: alert_request where
  "sample_alert = \<lparr> a_type = Some ''stop_loss'', a_stock_code = Some ''005930'',
     a_stock_name = Some ''Samsung'', a_message = Some ''stop'', a_severity = Some critical,
     a_data = None \<rparr>"

definition alert_request_sample :: "alert_request request" where
  "alert_request_sample = \<lparr> req_method = ''POST'', req_json = Inr sample_alert \<rparr>"

section \<open>Properties of the dashboard page\<close>

text \<open>
  C1. The claim is that the profit rate guards the division by zero and is 0 when the
  total value equals the total profit. The guard of \<open>getPortfolioSummary\<close> tests
  \<open>totalValue > 0\<close>, not the divisor \<open>totalValue - totalProfit\<close>: for one position of
  market value 100 and profit 100 both totals are 100, the divisor is 0, and the rate is
  \<open>Infinity\<close>, not 0.
\<close>

theorem profitRate_equal_totals:
  "totalValue (getPortfolioSummary (Some [sample_position]) (Some [])) = 100
   \<and> totalProfit (getPortfolioSummary (Some [sample_position]) (Some [])) = 100
   \<and> profitRate (getPortfolioSummary (Some [sample_position]) (Some [])) = PInf"
  by (simp add: getPortfolioSummary_def sample_position_def or0_def js_div_def Let_def)

text \<open>The portfolio page, which tests the divisor, gives 0 on the same position.\<close>

lemma totalProfitRate_zero_cost: "totalProfitRate [sample_position] = Fin 0"
  by (simp add: totalProfitRate_def sample_position_def Let_def)


section \<open>Properties of the useNotifications hook\<close>

lemma run_Nil: "run clock c [] = c"
  by (simp add: run_def)

lemma run_Cons: "run clock c (e # es) = run clock (step clock c e) es"
  by (simp add: run_def)

subsection \<open>Insert events\<close>

lemma filter_take_le: "int (length (filter P (take k xs))) \<le> int (length (filter P xs))"
proof -
  have "length (filter P (take k xs)) + length (filter P (drop k xs)) = length (filter P xs)"
    by (metis append_take_drop_id filter_append length_append)
  then show ?thesis by linarith
qed

lemma inserts_count:
  "unreadCount (hook (run clock c (map InsertEvent ns))) = unreadCount (hook c) + int (length ns)"
  by (induction ns arbitrary: c) (simp_all add: run_Nil run_Cons onInsert_def)

lemma inserts_held_le:
  "unread_held (hook c) \<le> unreadCount (hook c) \<Longrightarrow>
   unread_held (hook (run clock c (map InsertEvent ns)))
     \<le> unreadCount (hook (run clock c (map InsertEvent ns)))"
proof (induction ns arbitrary: c)
  case Nil
  then show ?case by (simp add: run_Nil)
next
  case (Cons n ns)
  have "unread_held (onInsert n (hook c)) \<le> unread_held (hook c) + 1"
    using filter_take_le [of "\<lambda>n. \<not> is_read n" 50 "n # notifications (hook c)"]
    by (simp add: unread_held_def onInsert_def split: if_splits)
  with Cons.prems have "unread_held (hook (step clock c (InsertEvent n)))
      \<le> unreadCount (hook (step clock c (InsertEvent n)))"
    by (simp add: onInsert_def unread_held_def)
  from Cons.IH [OF this] show ?case by (simp add: run_Cons)
qed

lemma inserts_held_eq:
  "unread_held (hook c) = unreadCount (hook c) \<Longrightarrow> \<forall>n\<in>set ns. \<not> is_read n \<Longrightarrow>
   length (notifications (hook c)) + length ns \<le> 50 \<Longrightarrow>
   unread_held (hook (run clock c (map InsertEvent ns)))
     = unreadCount (hook (run clock c (map InsertEvent ns)))"
proof (induction ns arbitrary: c)
  case Nil
  then show ?case by (simp add: run_Nil)
next
  case (Cons n ns)
  let ?c = "step clock c (InsertEvent n)"
  from Cons.prems have a: "unread_held (hook ?c) = unreadCount (hook ?c)"
    by (simp add: onInsert_def unread_held_def)
  from Cons.prems have b: "length (notifications (hook ?c)) + length ns \<le> 50"
    by (simp add: onInsert_def)
  from Cons.prems have c: "\<forall>n\<in>set ns. \<not> is_read n" by simp
  from Cons.IH [OF a c b] show ?case by (simp add: run_Cons)
qed

lemma fetched_consistent:
  "unread_held (hook (fetchNotifications (Resolved (Reply (Some rows) None)) c))
     = unreadCount (hook (fetchNotifications (Resolved (Reply (Some rows) None)) c))"
  by (simp add: fetchNotifications_def unread_held_def)

text \<open>
  C3, as stated, fails. The claim is that after any sequence of insert events from a
  fetched state the unread count equals the number of unread rows the hook holds, capped
  by the window of 50 rows. \<open>onInsert\<close> adds one to the count whatever the list drops:
  after a fetch of 50 unread rows and one insert of an unread row the hook holds 50 rows,
  all unread, and the count is 51.
\<close>

theorem unreadCount_exceeds_window:
  "unreadCount (hook (run sample_clock (mounted (map unread_row [1..50]))
      [Fetch (Resolved (Reply (Some (map unread_row [1..50])) None)),
       InsertEvent (unread_row 51)])) = 51
   \<and> unread_held (hook (run sample_clock (mounted (map unread_row [1..50]))
      [Fetch (Resolved (Reply (Some (map unread_row [1..50])) None)),
       InsertEvent (unread_row 51)])) = 50"
  apply (simp add: run_Cons run_Nil fetchNotifications_def mounted_def onInsert_def
      unread_held_def initial_hook_def)
  apply code_simp
  done

text \<open>
  C3, amended. After \<open>k\<close> insert events from a fetched state the unread count is the
  number of unread rows fetched plus \<open>k\<close>; it is never below the number of unread rows
  held, and equals it when every inserted row is unread and the fetched rows and the
  inserted ones together fit the window of 50. The count itself is not capped.
\<close>

theorem unreadCount_after_inserts:
  fixes rows ns clock c
  defines "c0 \<equiv> fetchNotifications (Resolved (Reply (Some rows) None)) c"
  defines "c1 \<equiv> run clock c0 (map InsertEvent ns)"
  shows "unreadCount (hook c1) = unread_held (hook c0) + int (length ns)
       \<and> unread_held (hook c1) \<le> unreadCount (hook c1)
       \<and> ((\<forall>n\<in>set ns. \<not> is_read n) \<and> length rows + length ns \<le> 50
            \<longrightarrow> unreadCount (hook c1) = unread_held (hook c1))"
proof -
  have e: "unread_held (hook c0) = unreadCount (hook c0)"
    unfolding c0_def by (rule fetched_consistent)
  have l: "length (notifications (hook c0)) = length rows"
    unfolding c0_def by (simp add: fetchNotifications_def)
  have 1: "unreadCount (hook c1) = unread_held (hook c0) + int (length ns)"
    unfolding c1_def by (simp add: inserts_count e)
  have 2: "unread_held (hook c1) \<le> unreadCount (hook c1)"
    unfolding c1_def by (rule inserts_held_le) (simp add: e)
  have 3: "(\<forall>n\<in>set ns. \<not> is_read n) \<and> length rows + length ns \<le> 50
            \<longrightarrow> unreadCount (hook c1) = unread_held (hook c1)"
    unfolding c1_def using inserts_held_eq [OF e, of ns clock] l by simp
  from 1 2 3 show ?thesis by blast
qed

theorem unreadCount_after_inserts_witness:
  "unreadCount (hook (run sample_clock
      (fetchNotifications (Resolved (Reply (Some [unread_row 1]) None)) (mounted []))
      (map InsertEvent [unread_row 2]))) = 2
   \<and> unread_held (hook (run sample_clock
      (fetchNotifications (Resolved (Reply (Some [unread_row 1]) None)) (mounted []))
      (map InsertEvent [unread_row 2]))) = 2"
  using unreadCount_after_inserts [where rows = "[unread_row 1]" and ns = "[unread_row 2]"
      and clock = sample_clock and c = "mounted []"]
  by (simp add: unread_row_def unread_held_def fetchNotifications_def)

subsection \<open>Marking as read\<close>

lemma map_if_updated:
  "r \<in> set (map (\<lambda>x. if P x then g x else x) rows) \<Longrightarrow> P r \<Longrightarrow> (\<And>x. Q (g x)) \<Longrightarrow> Q r"
  by (induction rows) (auto split: if_splits)

lemma map_if_replaced:
  "m \<in> set (map (\<lambda>x. if f x = k then new else x) xs) \<Longrightarrow> f m = k \<Longrightarrow> m = new"
  by (induction xs) (auto split: if_splits)

lemma map_if_holds:
  "n \<in> set xs \<Longrightarrow> f n = k \<Longrightarrow> new \<in> set (map (\<lambda>x. if f x = k then new else x) xs)"
  by (induction xs) auto

lemma markAsRead_hook: "hook (markAsRead clock i reply c) = hook c"
  by (simp add: markAsRead_def split: settled.splits db_reply.splits option.splits)

lemma update_read_ids: "map n_id (update_read now sel rows) = map n_id rows"
  by (induction rows) (simp_all add: update_read_def)

lemma update_read_by_id:
  assumes "r \<in> set (update_read now (\<lambda>r. n_id r = i) rows)" and "n_id r = i"
  shows "is_read r \<and> read_at r = Some now"
proof (rule map_if_updated [where P = "\<lambda>r. n_id r = i"
      and g = "\<lambda>r. r\<lparr> is_read := True, read_at := Some now \<rparr>" and rows = rows])
  show "r \<in> set (map (\<lambda>x. if n_id x = i then x\<lparr>is_read := True, read_at := Some now\<rparr> else x) rows)"
    using assms(1) by (simp only: update_read_def)
  show "n_id r = i" by (rule assms(2))
  show "\<And>x. is_read (x\<lparr>is_read := True, read_at := Some now\<rparr>)
      \<and> read_at (x\<lparr>is_read := True, read_at := Some now\<rparr>) = Some now"
    by simp
qed

lemma onUpdate_notifications:
  "notifications (onUpdate old new s)
     = map (\<lambda>n. if n_id n = n_id new then new else n) (notifications s)"
  by (simp add: onUpdate_def)

lemma onUpdate_count:
  "\<not> is_read old \<Longrightarrow> is_read new \<Longrightarrow>
   unreadCount (onUpdate old new s) = max 0 (unreadCount s - 1)"
  by (simp add: onUpdate_def)

lemma onUpdate_replaces:
  "m \<in> set (notifications (onUpdate old new s)) \<Longrightarrow> n_id m = n_id new \<Longrightarrow> m = new"
  unfolding onUpdate_notifications by (rule map_if_replaced)

lemma onUpdate_holds:
  "n \<in> set (notifications s) \<Longrightarrow> n_id n = n_id new \<Longrightarrow>
   new \<in> set (notifications (onUpdate old new s))"
  unfolding onUpdate_notifications by (rule map_if_holds)

text \<open>
  C4, as stated, fails. The claim is that \<open>markAsRead\<close> issues the write and then updates
  the hook's local state without waiting for the realtime event. \<open>markAsRead\<close> only
  issues the write: with one unread row held, the row in the table is read afterwards,
  while the held row is still unread and the count is still 1.
\<close>

theorem markAsRead_keeps_local_state:
  "hook (markAsRead sample_clock 1 (Resolved (Reply None None)) sample_client)
     = hook sample_client
   \<and> map is_read (notifications
        (hook (markAsRead sample_clock 1 (Resolved (Reply None None)) sample_client))) = [False]
   \<and> unreadCount (hook (markAsRead sample_clock 1 (Resolved (Reply None None)) sample_client)) = 1
   \<and> map is_read (table (markAsRead sample_clock 1 (Resolved (Reply None None)) sample_client))
       = [True]"
  by (simp add: markAsRead_def sample_client_def update_read_def unread_row_def)

text \<open>
  C4, amended. \<open>markAsRead(id)\<close> issues a write that sets the read flag and the read
  timestamp of the rows with that id, and leaves the hook's local state as it is. The
  held list and the unread count change when the realtime update event for the row is
  handled: the held row is replaced by the new image and the count goes down by one,
  not below zero.
\<close>

theorem markAsRead_writes_only:
  "hook (markAsRead clock i reply c) = hook c
   \<and> map n_id (table (markAsRead clock i (Resolved (Reply d None)) c)) = map n_id (table c)
   \<and> (\<forall>r\<in>set (table (markAsRead clock i (Resolved (Reply d None)) c)).
         n_id r = i \<longrightarrow> is_read r \<and> read_at r = Some (clock 0))
   \<and> (n_id new = i \<and> \<not> is_read old \<and> is_read new \<longrightarrow>
        (\<forall>m\<in>set (notifications (onUpdate old new (hook c))). n_id m = i \<longrightarrow> m = new)
        \<and> unreadCount (onUpdate old new (hook c)) = max 0 (unreadCount (hook c) - 1))"
proof -
  have t: "table (markAsRead clock i (Resolved (Reply d None)) c)
             = update_read (clock 0) (\<lambda>r. n_id r = i) (table c)"
    by (simp add: markAsRead_def)
  have 1: "map n_id (table (markAsRead clock i (Resolved (Reply d None)) c)) = map n_id (table c)"
    unfolding t by (rule update_read_ids)
  have 2: "\<forall>r\<in>set (table (markAsRead clock i (Resolved (Reply d None)) c)).
         n_id r = i \<longrightarrow> is_read r \<and> read_at r = Some (clock 0)"
    unfolding t using update_read_by_id by blast
  have 3: "n_id new = i \<and> \<not> is_read old \<and> is_read new \<longrightarrow>
        (\<forall>m\<in>set (notifications (onUpdate old new (hook c))). n_id m = i \<longrightarrow> m = new)
        \<and> unreadCount (onUpdate old new (hook c)) = max 0 (unreadCount (hook c) - 1)"
    using onUpdate_replaces [of _ old new "hook c"] onUpdate_count [of old new "hook c"] by auto
  from markAsRead_hook 1 2 3 show ?thesis by blast
qed

theorem markAsRead_writes_only_witness:
  "map read_at (table (markAsRead sample_clock 1 (Resolved (Reply None None)) sample_client))
     = [Some ''2026-02-04T09:00:01Z'']
   \<and> unreadCount (onUpdate (unread_row 1) ((unread_row 1)\<lparr> is_read := True \<rparr>)
        (hook sample_client)) = 0"
  using markAsRead_writes_only [of sample_clock 1 "Resolved (Reply None None)" sample_client None
      "(unread_row 1)\<lparr> is_read := True \<rparr>" "unread_row 1"]
  by (simp add: markAsRead_def sample_client_def update_read_def unread_row_def sample_clock_def)

text \<open>
  C5. In a state that holds an unread notification with a given id, \<open>markAsRead\<close> of
  that id followed by the realtime update event of the row (read flag false to true)
  applies the decrement of the unread count, \<open>Math.max(0, prev - 1)\<close>, once: the count
  is one less when it was at least 1, and never two less. The held row is then read.
\<close>

theorem markAsRead_then_update_decrements_once:
  assumes "n \<in> set (notifications (hook c))" and "n_id n = i" and "\<not> is_read n"
    and "n_id new = i" and "\<not> is_read old" and "is_read new"
  shows "unreadCount (hook (run clock c [MarkAsRead i reply, UpdateEvent old new]))
           = max 0 (unreadCount (hook c) - 1)
       \<and> (1 \<le> unreadCount (hook c) \<longrightarrow>
            unreadCount (hook (run clock c [MarkAsRead i reply, UpdateEvent old new]))
              = unreadCount (hook c) - 1)
       \<and> new \<in> set (notifications (hook (run clock c [MarkAsRead i reply, UpdateEvent old new])))
       \<and> (\<forall>m\<in>set (notifications (hook (run clock c [MarkAsRead i reply, UpdateEvent old new]))).
             n_id m = i \<longrightarrow> is_read m)"
proof -
  have r: "hook (run clock c [MarkAsRead i reply, UpdateEvent old new]) = onUpdate old new (hook c)"
    by (simp add: run_Cons run_Nil markAsRead_hook)
  have 1: "unreadCount (onUpdate old new (hook c)) = max 0 (unreadCount (hook c) - 1)"
    using assms by (simp add: onUpdate_count)
  have 2: "1 \<le> unreadCount (hook c) \<longrightarrow>
            unreadCount (onUpdate old new (hook c)) = unreadCount (hook c) - 1"
    unfolding 1 by simp
  have 3: "new \<in> set (notifications (onUpdate old new (hook c)))"
    using assms by (simp add: onUpdate_holds)
  have 4: "\<forall>m\<in>set (notifications (onUpdate old new (hook c))). n_id m = i \<longrightarrow> is_read m"
    using assms onUpdate_replaces [of _ old new "hook c"] by auto
  from 1 2 3 4 show ?thesis unfolding r by blast
qed

theorem markAsRead_then_update_decrements_once_witness:
  "unreadCount (hook (run sample_clock sample_client
      [MarkAsRead 1 (Resolved (Reply None None)),
       UpdateEvent (unread_row 1)
         ((unread_row 1)\<lparr> is_read := True, read_at := Some (sample_clock 0) \<rparr>)])) = 0
   \<and> unreadCount (hook sample_client) = 1"
  using markAsRead_then_update_decrements_once [of "unread_row 1" sample_client 1
      "(unread_row 1)\<lparr> is_read := True, read_at := Some (sample_clock 0) \<rparr>" "unread_row 1"
      sample_clock "Resolved (Reply None None)"]
  by (simp add: sample_client_def unread_row_def)

subsection \<open>The unread count is never negative\<close>

lemma step_nonneg:
  assumes "0 \<le> unreadCount (hook c)"
  shows "0 \<le> unreadCount (hook (step clock c ev))"
proof (cases ev)
  case (Fetch reply)
  with assms show ?thesis
    by (simp add: fetchNotifications_def split: settled.splits db_reply.splits option.splits)
next
  case (InsertEvent n)
  with assms show ?thesis by (simp add: onInsert_def)
next
  case (UpdateEvent old new)
  with assms show ?thesis by (simp add: onUpdate_def)
next
  case (MarkAsRead i reply)
  with assms show ?thesis
    by (simp add: markAsRead_def split: settled.splits db_reply.splits option.splits)
next
  case (MarkAllAsRead reply)
  with assms show ?thesis
    by (simp add: markAllAsRead_def mark_local_def
        split: settled.splits db_reply.splits option.splits)
qed

lemma run_nonneg: "0 \<le> unreadCount (hook c) \<Longrightarrow> 0 \<le> unreadCount (hook (run clock c evs))"
  by (induction evs arbitrary: c) (simp_all add: run_Nil run_Cons step_nonneg)

text \<open>
  C9. The unread count is never negative: it is so after any run of fetches, insert and
  update events, \<open>markAsRead\<close> and \<open>markAllAsRead\<close> calls from the state of a hook just
  mounted, and every such run from a state with a count of at least 0 keeps it so.
\<close>

theorem unreadCount_nonneg:
  "0 \<le> unreadCount (hook (run clock (mounted rows) evs))
   \<and> (0 \<le> unreadCount (hook c) \<longrightarrow> 0 \<le> unreadCount (hook (run clock c evs)))"
  by (simp add: run_nonneg mounted_def initial_hook_def)

theorem unreadCount_nonneg_witness:
  "0 \<le> unreadCount (hook (run sample_clock (mounted [])
          [UpdateEvent (unread_row 1) ((unread_row 1)\<lparr> is_read := True \<rparr>)]))
   \<and> unreadCount (hook (run sample_clock (mounted [])
          [UpdateEvent (unread_row 1) ((unread_row 1)\<lparr> is_read := True \<rparr>)])) = 0"
  using unreadCount_nonneg [of sample_clock "[]"
      "[UpdateEvent (unread_row 1) ((unread_row 1)\<lparr> is_read := True \<rparr>)]" "mounted []"]
  by (simp add: run_Cons run_Nil onUpdate_def mounted_def initial_hook_def unread_row_def)

subsection \<open>markAllAsRead\<close>

lemma mark_local_ids: "map n_id (notifications (mark_local clock s)) = map n_id (notifications s)"
proof -
  have "map n_id (notifications (mark_local clock s))
          = map (n_id \<circ> snd) (enumerate 0 (notifications s))"
    by (simp add: mark_local_def case_prod_unfold comp_def)
  also have "\<dots> = map n_id (map snd (enumerate 0 (notifications s)))"
    by (simp only: map_map)
  finally show ?thesis by (simp only: map_snd_enumerate)
qed

lemma mark_local_read:
  "n \<in> set (notifications (mark_local clock s)) \<Longrightarrow> is_read n \<and> read_at n \<noteq> None"
  by (auto simp: mark_local_def)

lemma mark_local_count: "unreadCount (mark_local clock s) = 0"
  by (simp add: mark_local_def)

text \<open>
  What \<open>markAllAsRead\<close> does when the awaited write throws, and when it is accepted: a
  thrown write leaves the held list and the count as they are and is logged; an accepted
  one leaves every held row read, with a read timestamp, and the count at 0.
\<close>

lemma markAllAsRead_thrown_or_accepted:
  "hook (markAllAsRead clock (Rejected e) c) = hook c
   \<and> table (markAllAsRead clock (Rejected e) c) = table c
   \<and> console (markAllAsRead clock (Rejected e) c)
        = console c @ [ConsoleError ''Error marking all notifications as read:'']
   \<and> (\<forall>n\<in>set (notifications (hook (markAllAsRead clock (Resolved (Reply d None)) c))).
         is_read n \<and> read_at n \<noteq> None)
   \<and> map n_id (notifications (hook (markAllAsRead clock (Resolved (Reply d None)) c)))
        = map n_id (notifications (hook c))
   \<and> unreadCount (hook (markAllAsRead clock (Resolved (Reply d None)) c)) = 0"
proof -
  have r: "hook (markAllAsRead clock (Resolved (Reply d None)) c) = mark_local clock (hook c)"
    by (simp add: markAllAsRead_def)
  show ?thesis
    unfolding r using mark_local_read [of _ clock "hook c"]
    by (simp add: markAllAsRead_def mark_local_ids mark_local_count)
qed

text \<open>
  \<open>fetchNotifications\<close> looks at the \<open>error\<close> of the reply and throws it: a query that
  the client reports as failed leaves the held list and the count as they are.
\<close>

lemma fetchNotifications_reported_error:
  "notifications (hook (fetchNotifications (Resolved (Reply d (Some e))) c))
     = notifications (hook c)
   \<and> unreadCount (hook (fetchNotifications (Resolved (Reply d (Some e))) c))
       = unreadCount (hook c)
   \<and> console (fetchNotifications (Resolved (Reply d (Some e))) c)
       = console c @ [ConsoleError ''Error fetching notifications:'']"
  by (simp add: fetchNotifications_def)

text \<open>
  C10. The claim is that \<open>markAllAsRead\<close> is atomic with respect to the local state: a
  failed write leaves the held list and the unread count unchanged and is logged, and
  only a successful one marks the held rows read. \<open>markAllAsRead\<close> discards the reply of
  the write, and the client reports a failed write in the \<open>error\<close> of the reply, without
  throwing. With one unread row held and a write that is reported as failed, the row in
  the table is still unread and nothing is logged, while the held row is read, has a read
  timestamp, and the count is 0.
\<close>

theorem markAllAsRead_reported_error:
  "map is_read (table (markAllAsRead sample_clock
      (Resolved (Reply None (Some ''permission denied''))) sample_client)) = [False]
   \<and> console (markAllAsRead sample_clock
        (Resolved (Reply None (Some ''permission denied''))) sample_client) = []
   \<and> map is_read (notifications (hook (markAllAsRead sample_clock
        (Resolved (Reply None (Some ''permission denied''))) sample_client))) = [True]
   \<and> map read_at (notifications (hook (markAllAsRead sample_clock
        (Resolved (Reply None (Some ''permission denied''))) sample_client)))
       = [Some ''2026-02-04T09:00:01Z'']
   \<and> unreadCount (hook (markAllAsRead sample_clock
        (Resolved (Reply None (Some ''permission denied''))) sample_client)) = 0
   \<and> unreadCount (hook sample_client) = 1"
  by (simp add: markAllAsRead_def mark_local_def sample_client_def sample_clock_def
      unread_row_def)


section \<open>Properties of the RecentTrades component\<close>

lemma recent_run_Nil: "recent_run s [] = s"
  by (simp add: recent_run_def)

lemma recent_run_snoc: "recent_run s (evs @ [ev]) = recent_step (recent_run s evs) ev"
  by (simp add: recent_run_def)

lemma onNewTrade_length: "length (trades (onNewTrade s t)) \<le> 5"
  by (simp add: onNewTrade_def)

lemma recent_step_length:
  assumes "length (trades s) \<le> 5" and "\<And>l. ev = InitialTrades l \<Longrightarrow> length l \<le> 5"
  shows "length (trades (recent_step s ev)) \<le> 5"
proof (cases ev)
  case (NewTrade t)
  then show ?thesis by (simp add: onNewTrade_length)
next
  case (TradeUpdate t)
  with assms(1) show ?thesis by (simp add: onTradeUpdate_def)
next
  case (HighlightExpired i)
  with assms(1) show ?thesis by (simp add: highlight_expired_def)
next
  case (InitialTrades l)
  with assms(2) show ?thesis by (simp add: initialTradesChanged_def)
qed

lemma inserts_capped:
  "ts \<noteq> [] \<Longrightarrow> length (trades (recent_run s (map NewTrade ts))) \<le> 5"
proof (induction ts rule: rev_induct)
  case Nil
  then show ?case by simp
next
  case (snoc t ts)
  show ?case by (simp add: recent_run_snoc onNewTrade_length)
qed

lemma recent_run_capped:
  "length (trades s) \<le> 5 \<Longrightarrow> \<forall>l. InitialTrades l \<in> set evs \<longrightarrow> length l \<le> 5 \<Longrightarrow>
   length (trades (recent_run s evs)) \<le> 5"
proof (induction evs rule: rev_induct)
  case Nil
  then show ?case by (simp add: recent_run_Nil)
next
  case (snoc ev evs)
  from snoc.prems have "\<forall>l. InitialTrades l \<in> set evs \<longrightarrow> length l \<le> 5" by simp
  with snoc.IH snoc.prems(1) have h: "length (trades (recent_run s evs)) \<le> 5" by blast
  from snoc.prems(2) have "\<And>l. ev = InitialTrades l \<Longrightarrow> length l \<le> 5" by simp
  with h show ?case unfolding recent_run_snoc by (rule recent_step_length)
qed

text \<open>
  C6, as stated, fails. The claim is that the list of recent trades never holds more
  than 5 entries after any number of insert events, for every initial list. The component
  takes its initial list as it is given: with 7 initial trades and no insert event it
  holds 7. The effect that follows the \<open>initialTrades\<close> prop does the same later: after
  an insert has cut the list to 5, a new prop of 7 trades sets it to 7 again.
\<close>

theorem recent_trades_exceed_cap:
  "length (trades (recent_run (RecentTrades (map sample_trade [1..7])) (map NewTrade []))) = 7
   \<and> length (trades (recent_run (RecentTrades (map sample_trade [1..7]))
        [NewTrade (sample_trade 8)])) = 5
   \<and> length (trades (recent_run (RecentTrades (map sample_trade [1..7]))
        [NewTrade (sample_trade 8), InitialTrades (map sample_trade [2..8])])) = 7"
  by (simp add: recent_run_def RecentTrades_def onNewTrade_def initialTradesChanged_def)

text \<open>
  C6, amended. The list of recent trades holds at most 5 entries after one or more
  insert events have been handled, for every initial list and every sequence of inserted
  trades. Over all events of the component (inserts, updates, the expiry of a highlight,
  a new \<open>initialTrades\<close> prop) it holds at most 5 entries when the initial list and every
  later \<open>initialTrades\<close> list have at most 5, as the page's query for them has.
\<close>

theorem recent_trades_capped:
  "(ts \<noteq> [] \<longrightarrow>
      length (trades (recent_run (RecentTrades initialTrades) (map NewTrade ts))) \<le> 5)
   \<and> (length initialTrades \<le> 5 \<and> (\<forall>l. InitialTrades l \<in> set evs \<longrightarrow> length l \<le> 5) \<longrightarrow>
      length (trades (recent_run (RecentTrades initialTrades) evs)) \<le> 5)"
proof -
  have 1: "ts \<noteq> [] \<longrightarrow>
      length (trades (recent_run (RecentTrades initialTrades) (map NewTrade ts))) \<le> 5"
    using inserts_capped [of ts "RecentTrades initialTrades"] by blast
  have 2: "length initialTrades \<le> 5 \<and> (\<forall>l. InitialTrades l \<in> set evs \<longrightarrow> length l \<le> 5) \<longrightarrow>
      length (trades (recent_run (RecentTrades initialTrades) evs)) \<le> 5"
    using recent_run_capped [of "RecentTrades initialTrades" evs]
    by (simp add: RecentTrades_def)
  from 1 2 show ?thesis by (rule conjI)
qed

theorem recent_trades_capped_witness:
  "length (trades (recent_run (RecentTrades (map sample_trade [1..7]))
      (map NewTrade [sample_trade 8]))) \<le> 5
   \<and> length (trades (recent_run (RecentTrades [sample_trade 1])
        [InitialTrades [sample_trade 1, sample_trade 2], NewTrade (sample_trade 3)])) \<le> 5"
proof -
  have ne: "[sample_trade 8] \<noteq> []" by simp
  have le: "length [sample_trade 1] \<le> 5
      \<and> (\<forall>l. InitialTrades l \<in> set [InitialTrades [sample_trade 1, sample_trade 2],
                 NewTrade (sample_trade 3)] \<longrightarrow> length l \<le> 5)"
    by auto
  from recent_trades_capped [of "[sample_trade 8]" "map sample_trade [1..7]" "[]",
      THEN conjunct1, THEN mp, OF ne]
    recent_trades_capped [of "[]" "[sample_trade 1]"
      "[InitialTrades [sample_trade 1, sample_trade 2], NewTrade (sample_trade 3)]",
      THEN conjunct2, THEN mp, OF le]
  show ?thesis by (rule conjI)
qed


section \<open>Properties of the trigger functions\<close>

lemma added_rows_append:
  "added_rows d (append_notification ty ti msg sev dat created d)
     = [\<lparr> n_id = notifications_seq d + 1, n_type = ty, title = ti, message = msg,
          n_severity = sev, n_data = dat, is_read = False, read_at = None,
          n_created_at = created \<rparr>]"
  by (simp add: added_rows_def append_notification_def)

lemma check_portfolio_alerts_eq:
  "check_portfolio_alerts r now NEW d =
     Inr (if profit_loss_rate NEW \<le> - 5
          then append_notification ''stop_loss'' ko_stop_loss_warning
                 (p_stock_name NEW @ ko_loss_rate
                    @ numeric_text r (round2 \<bar>profit_loss_rate NEW\<bar>) @ ko_review_stop_loss)
                 critical (Some (position_data NEW)) now d
          else if 10 \<le> profit_loss_rate NEW
          then append_notification ''take_profit'' ko_take_profit_reached
                 (p_stock_name NEW @ ko_profit_rate
                    @ numeric_text r (round2 (profit_loss_rate NEW)) @ ko_review_take_profit)
                 info (Some (position_data NEW)) now d
          else d)"
  by (simp add: check_portfolio_alerts_def insert_notification_def loss_threshold_def
      profit_threshold_def Let_def)

text \<open>
  C7. The portfolio trigger runs after an update that changes the profit/loss rate. With
  the new rate at or below -5 it inserts one \<open>stop_loss\<close> notification of severity
  critical, with the new rate at or above 10 one \<open>take_profit\<close> notification of severity
  info, and between the two nothing. The thresholds are the constants 5 and 10 of the
  function: the strategies table, with its \<open>max_loss_rate\<close> and \<open>take_profit_rate\<close>,
  has no influence on what is inserted.
\<close>

theorem portfolio_alert_thresholds:
  "(profit_loss_rate OLD = profit_loss_rate NEW \<longrightarrow>
      trigger_check_portfolio_alerts r now OLD NEW d = Inr d)
   \<and> (profit_loss_rate OLD \<noteq> profit_loss_rate NEW \<longrightarrow>
      (\<exists>d'. trigger_check_portfolio_alerts r now OLD NEW d = Inr d'
         \<and> (profit_loss_rate NEW \<le> - 5 \<longrightarrow>
              map (\<lambda>n. (n_type n, n_severity n)) (added_rows d d') = [(''stop_loss'', critical)])
         \<and> (10 \<le> profit_loss_rate NEW \<longrightarrow>
              map (\<lambda>n. (n_type n, n_severity n)) (added_rows d d') = [(''take_profit'', info)])
         \<and> (- 5 < profit_loss_rate NEW \<and> profit_loss_rate NEW < 10 \<longrightarrow> d' = d)
         \<and> trigger_check_portfolio_alerts r now OLD NEW (d\<lparr> strategies_tbl := ss \<rparr>)
              = Inr (d'\<lparr> strategies_tbl := ss \<rparr>)))"
proof (cases "profit_loss_rate OLD = profit_loss_rate NEW")
  case True
  then show ?thesis by (simp add: trigger_check_portfolio_alerts_def)
next
  case False
  consider (loss) "profit_loss_rate NEW \<le> - 5"
    | (profit) "10 \<le> profit_loss_rate NEW"
    | (none) "- 5 < profit_loss_rate NEW" "profit_loss_rate NEW < 10"
    by linarith
  then show ?thesis
  proof cases
    case loss
    then have "\<not> 10 \<le> profit_loss_rate NEW" by linarith
    with loss False show ?thesis
      by (simp add: trigger_check_portfolio_alerts_def check_portfolio_alerts_eq
          added_rows_append) (simp add: append_notification_def)
  next
    case profit
    then have "\<not> profit_loss_rate NEW \<le> - 5" by linarith
    with profit False show ?thesis
      by (simp add: trigger_check_portfolio_alerts_def check_portfolio_alerts_eq
          added_rows_append) (simp add: append_notification_def)
  next
    case none
    with False show ?thesis
      by (simp add: trigger_check_portfolio_alerts_def check_portfolio_alerts_eq)
  qed
qed

theorem portfolio_alert_thresholds_witness:
  "\<exists>d'. trigger_check_portfolio_alerts sample_rendering ''2026-02-04T09:00:05Z''
           (sample_position\<lparr> profit_loss_rate := - 3 \<rparr>)
           (sample_position\<lparr> profit_loss_rate := - 6 \<rparr>) empty_db = Inr d'
     \<and> map (\<lambda>n. (n_type n, n_severity n)) (added_rows empty_db d') = [(''stop_loss'', critical)]"
proof -
  let ?OLD = "sample_position\<lparr> profit_loss_rate := - 3 \<rparr>"
  let ?NEW = "sample_position\<lparr> profit_loss_rate := - 6 \<rparr>"
  have ne: "profit_loss_rate ?OLD \<noteq> profit_loss_rate ?NEW" by simp
  have le: "profit_loss_rate ?NEW \<le> - 5" by simp
  from portfolio_alert_thresholds [where OLD = ?OLD and NEW = ?NEW and r = sample_rendering
      and now = "''2026-02-04T09:00:05Z''" and d = empty_db and ss = "[]",
      THEN conjunct2, THEN mp, OF ne]
  show ?thesis
  proof (elim exE conjE)
    fix d'
    assume 1: "trigger_check_portfolio_alerts sample_rendering ''2026-02-04T09:00:05Z''
        ?OLD ?NEW empty_db = Inr d'"
      and 2: "profit_loss_rate ?NEW \<le> - 5 \<longrightarrow>
        map (\<lambda>n. (n_type n, n_severity n)) (added_rows empty_db d') = [(''stop_loss'', critical)]"
    from 2 le have "map (\<lambda>n. (n_type n, n_severity n)) (added_rows empty_db d')
        = [(''stop_loss'', critical)]" by (rule mp)
    with 1 show ?thesis by (intro exI conjI)
  qed
qed


section \<open>Properties of the serverless handlers\<close>

lemma log_db: "edge_db (log l w) = edge_db w"
  by (simp add: log_def)

lemma sendWebhookNotification_db:
  "edge_db (sendWebhookNotification ev fetched now ty msg dat w) = edge_db w"
  by (simp add: sendWebhookNotification_def log_def Let_def split: settled.splits http_result.splits)

lemma sendTradeExecutedNotification_cases:
  "sendTradeExecutedNotification r ev now (Rejected e) f t w
     = (log (ConsoleLog ''Trade executed notification:'') w, Some e)"
  "sendTradeExecutedNotification r ev now (Resolved (Reply x (Some e))) f t w
     = (sendWebhookNotification ev f now ''trade_executed'' (executed_message r t) (json_of_trade t)
          (log (ConsoleLog ''Trade executed notification:'') w), None)"
  "sendTradeExecutedNotification r ev now (Resolved (Reply x None)) f t w
     = (sendWebhookNotification ev f now ''trade_executed'' (executed_message r t) (json_of_trade t)
          ((log (ConsoleLog ''Trade executed notification:'') w)
             \<lparr> edge_db := append_notification ''trade_executed'' (action t @ ko_filled_done)
                 (executed_message r t) info (Some (handler_data t)) now (edge_db w) \<rparr>),
        None)"
  by (simp_all add: sendTradeExecutedNotification_def client_insert_def Let_def log_def handler_data_def)

lemma sendNewTradeNotification_cases:
  "sendNewTradeNotification r ev now (Rejected e) f t w
     = (log (ConsoleLog ''New trade notification:'') w, Some e)"
  "sendNewTradeNotification r ev now (Resolved (Reply x (Some e))) f t w
     = (sendWebhookNotification ev f now ''trade_new'' (new_trade_message r t) (json_of_trade t)
          (log (ConsoleLog ''New trade notification:'') w), None)"
  "sendNewTradeNotification r ev now (Resolved (Reply x None)) f t w
     = (sendWebhookNotification ev f now ''trade_new'' (new_trade_message r t) (json_of_trade t)
          ((log (ConsoleLog ''New trade notification:'') w)
             \<lparr> edge_db := append_notification ''trade_new'' (action t @ ko_order_suffix)
                 (new_trade_message r t) info (Some (handler_data t)) now (edge_db w) \<rparr>),
        None)"
  by (simp_all add: sendNewTradeNotification_def client_insert_def Let_def log_def handler_data_def)


lemma reply_cases:
  obtains (thrown) e where "ins = Rejected e"
    | (refused) x e where "ins = Resolved (Reply x (Some e))"
    | (stored) x where "ins = Resolved (Reply x None)"
proof (cases ins)
  case (Resolved rep)
  then show ?thesis
  proof (cases rep)
    case (Reply x err)
    with Resolved show ?thesis by (cases err) (auto intro: refused stored)
  qed
next
  case (Rejected e)
  then show ?thesis by (rule thrown)
qed

lemma relay_logged_append: "relay_logged l \<Longrightarrow> relay_logged (k @ l)"
  by (auto simp: relay_logged_def)

lemma serve_trade_options:
  "req_method req = ''OPTIONS'' \<Longrightarrow>
   serve_notify_trade r ev now ins f req w = (\<lparr> resp_status = 200, resp_body = BodyText ''ok'' \<rparr>, w)"
  by (simp add: serve_notify_trade_def)

lemma serve_trade_unparsed:
  "req_method req \<noteq> ''OPTIONS'' \<Longrightarrow> req_json req = Inl e \<Longrightarrow>
   serve_notify_trade r ev now ins f req w
     = (\<lparr> resp_status = 500, resp_body = BodyFailure e \<rparr>,
        log (ConsoleError ''Error processing notification:'') w)"
  by (simp add: serve_notify_trade_def)

lemma serve_trade_executed:
  "req_method req \<noteq> ''OPTIONS'' \<Longrightarrow> req_json req = Inr p \<Longrightarrow> executed_update p \<Longrightarrow>
   serve_notify_trade r ev now ins f req w =
     (case sendTradeExecutedNotification r ev now ins f (wp_record p)
             (log (ConsoleLog ''Trade notification triggered:'') w) of
        (w2, Some e) \<Rightarrow>
          (\<lparr> resp_status = 500, resp_body = BodyFailure e \<rparr>,
           log (ConsoleError ''Error processing notification:'') w2)
      | (w2, None) \<Rightarrow>
          (\<lparr> resp_status = 200, resp_body = BodySuccess ''Notification processed'' \<rparr>, w2))"
  by (simp add: serve_notify_trade_def executed_update_def Let_def split: prod.splits option.splits)

lemma serve_trade_insert:
  "req_method req \<noteq> ''OPTIONS'' \<Longrightarrow> req_json req = Inr p \<Longrightarrow> wp_type p = INSERT \<Longrightarrow>
   serve_notify_trade r ev now ins f req w =
     (case sendNewTradeNotification r ev now ins f (wp_record p)
             (log (ConsoleLog ''Trade notification triggered:'') w) of
        (w2, Some e) \<Rightarrow>
          (\<lparr> resp_status = 500, resp_body = BodyFailure e \<rparr>,
           log (ConsoleError ''Error processing notification:'') w2)
      | (w2, None) \<Rightarrow>
          (\<lparr> resp_status = 200, resp_body = BodySuccess ''Notification processed'' \<rparr>, w2))"
  by (simp add: serve_notify_trade_def executed_update_def Let_def split: prod.splits option.splits)

lemma serve_trade_other:
  "req_method req \<noteq> ''OPTIONS'' \<Longrightarrow> req_json req = Inr p \<Longrightarrow> \<not> executed_update p \<Longrightarrow>
   wp_type p \<noteq> INSERT \<Longrightarrow>
   serve_notify_trade r ev now ins f req w =
     (\<lparr> resp_status = 200, resp_body = BodySuccess ''Notification processed'' \<rparr>,
      log (ConsoleLog ''Trade notification triggered:'') w)"
  by (simp add: serve_notify_trade_def Let_def)

lemma serve_trade_indep:
  "fst (serve_notify_trade r ev now ins f req w) = fst (serve_notify_trade r ev' now ins f' req w)
   \<and> edge_db (snd (serve_notify_trade r ev now ins f req w))
       = edge_db (snd (serve_notify_trade r ev' now ins f' req w))"
proof (cases "req_method req = ''OPTIONS''")
  case True
  then show ?thesis by (simp add: serve_trade_options)
next
  case m: False
  show ?thesis
  proof (cases "req_json req")
    case (Inl e)
    with m show ?thesis by (simp add: serve_trade_unparsed)
  next
    case (Inr p)
    consider (ex) "executed_update p" | (new) "wp_type p = INSERT"
      | (other) "\<not> executed_update p" "wp_type p \<noteq> INSERT"
      by blast
    then show ?thesis
    proof cases
      case ex
      show ?thesis
        by (cases ins rule: reply_cases)
          (simp_all add: serve_trade_executed [OF m Inr ex] sendTradeExecutedNotification_cases
            sendWebhookNotification_db log_db)
    next
      case new
      show ?thesis
        by (cases ins rule: reply_cases)
          (simp_all add: serve_trade_insert [OF m Inr new] sendNewTradeNotification_cases
            sendWebhookNotification_db log_db)
    next
      case other
      then show ?thesis by (simp add: serve_trade_other [OF m Inr])
    qed
  qed
qed

lemma sendWebhookNotification_logged:
  "relay_fails ev f \<Longrightarrow>
   relay_logged (drop (length (edge_console w))
     (edge_console (sendWebhookNotification ev f now ty msg dat w)))"
  by (auto simp: sendWebhookNotification_def log_def Let_def relay_fails_def relay_logged_def
      split: settled.splits http_result.splits)

lemma sendWebhookNotification_grows:
  "\<exists>l. edge_console (sendWebhookNotification ev f now ty msg dat w) = edge_console w @ l"
  by (simp add: sendWebhookNotification_def log_def Let_def
      split: settled.splits http_result.splits)

lemma relay_logged_later:
  assumes "edge_console w1 = edge_console w @ k"
    and "relay_logged (drop (length (edge_console w1)) c)"
    and "\<exists>l. c = edge_console w1 @ l"
  shows "relay_logged (drop (length (edge_console w)) c)"
proof -
  from assms(3) obtain l where c: "c = edge_console w1 @ l" by blast
  with assms(2) have "relay_logged l" by simp
  then have "relay_logged (k @ l)" by (rule relay_logged_append)
  then show ?thesis by (simp add: c assms(1))
qed

lemma trade_relay_logged:
  assumes "relay_fails ev f" and "edge_console w1 = edge_console w @ k"
  shows "relay_logged (new_logs w (sendWebhookNotification ev f now ty msg dat w1))"
  unfolding new_logs_def
  by (rule relay_logged_later [OF assms(2) sendWebhookNotification_logged [OF assms(1)]
        sendWebhookNotification_grows])

lemma serve_trade_swallowed:
  assumes rf: "relay_fails ev f" and m: "req_method req \<noteq> ''OPTIONS''" and p: "req_json req = Inr p"
    and n: "executed_update p \<or> wp_type p = INSERT" and ins: "ins = Resolved rep"
  shows "fst (serve_notify_trade r ev now ins f req w)
           = \<lparr> resp_status = 200, resp_body = BodySuccess ''Notification processed'' \<rparr>
       \<and> relay_logged (new_logs w (snd (serve_notify_trade r ev now ins f req w)))"
proof -
  from ins consider (refused) x e where "ins = Resolved (Reply x (Some e))"
    | (stored) x where "ins = Resolved (Reply x None)"
    by (cases ins rule: reply_cases) auto
  then show ?thesis
  proof cases
    case refused
    from n show ?thesis
    proof
      assume ex: "executed_update p"
      show ?thesis
        unfolding refused
        by (simp add: serve_trade_executed [OF m p ex] sendTradeExecutedNotification_cases)
          (rule trade_relay_logged [OF rf], simp add: log_def)
    next
      assume new: "wp_type p = INSERT"
      show ?thesis
        unfolding refused
        by (simp add: serve_trade_insert [OF m p new] sendNewTradeNotification_cases)
          (rule trade_relay_logged [OF rf], simp add: log_def)
    qed
  next
    case stored
    from n show ?thesis
    proof
      assume ex: "executed_update p"
      show ?thesis
        unfolding stored
        by (simp add: serve_trade_executed [OF m p ex] sendTradeExecutedNotification_cases)
          (rule trade_relay_logged [OF rf], simp add: log_def)
    next
      assume new: "wp_type p = INSERT"
      show ?thesis
        unfolding stored
        by (simp add: serve_trade_insert [OF m p new] sendNewTradeNotification_cases)
          (rule trade_relay_logged [OF rf], simp add: log_def)
    qed
  qed
qed


lemma sendUrgentNotification_db: "edge_db (sendUrgentNotification ev a w) = edge_db w"
  by (simp add: sendUrgentNotification_def Let_def log_def)

lemma sendUrgentNotification_grows:
  "\<exists>l. edge_console (sendUrgentNotification ev a w) = edge_console w @ l"
  by (simp add: sendUrgentNotification_def Let_def log_def)

lemma sendWebhookNotification_alert_db:
  "edge_db (sendWebhookNotification_alert ev f now a w) = edge_db w"
  by (simp add: sendWebhookNotification_alert_def log_def Let_def
      split: settled.splits http_result.splits)

lemma sendWebhookNotification_alert_logged:
  "relay_fails ev f \<Longrightarrow>
   relay_logged (drop (length (edge_console w))
     (edge_console (sendWebhookNotification_alert ev f now a w)))"
  by (auto simp: sendWebhookNotification_alert_def log_def Let_def relay_fails_def relay_logged_def
      split: settled.splits http_result.splits)

lemma sendWebhookNotification_alert_grows:
  "\<exists>l. edge_console (sendWebhookNotification_alert ev f now a w) = edge_console w @ l"
  by (simp add: sendWebhookNotification_alert_def log_def Let_def
      split: settled.splits http_result.splits)

lemma alert_relay_logged:
  assumes "relay_fails ev f" and "edge_console w1 = edge_console w @ k"
  shows "relay_logged (new_logs w (sendWebhookNotification_alert ev f now a w1))"
  unfolding new_logs_def
  by (rule relay_logged_later [OF assms(2) sendWebhookNotification_alert_logged [OF assms(1)]
        sendWebhookNotification_alert_grows])

lemma urgent_db: "edge_db (urgent ev a w) = edge_db w"
  by (simp add: urgent_def sendUrgentNotification_db)

lemma urgent_grows: "\<exists>l. edge_console (urgent ev a w) = edge_console w @ l"
  using sendUrgentNotification_grows [of ev a w] by (simp add: urgent_def)

lemma processAlert_cases:
  "processAlert ev now (Rejected e) f a w = (w, Some e)"
  "processAlert ev now (Resolved (Reply x (Some e))) f a w
     = (sendWebhookNotification_alert ev f now a (urgent ev a w), None)"
  "\<exists>ti. processAlert ev now (Resolved (Reply x None)) f a w
     = (sendWebhookNotification_alert ev f now a
          (urgent ev a
             (w\<lparr> edge_db := append_notification (the (a_type a)) ti (the (a_message a))
                    (case a_severity a of None \<Rightarrow> info | Some s \<Rightarrow> s)
                    (Some (alert_data a)) now (edge_db w) \<rparr>)), None)
       \<and> ti = (case titles (the (a_type a)) of None \<Rightarrow> ko_alert | Some t \<Rightarrow> t)"
  by (simp_all add: processAlert_def client_insert_def Let_def urgent_def)

lemma processAlert_indep:
  "snd (processAlert ev now ins f a w) = snd (processAlert ev' now ins f' a w)
   \<and> edge_db (fst (processAlert ev now ins f a w)) = edge_db (fst (processAlert ev' now ins f' a w))"
proof (cases ins rule: reply_cases)
  case (thrown e)
  then show ?thesis by (simp add: processAlert_cases)
next
  case (refused x e)
  then show ?thesis by (simp add: processAlert_cases sendWebhookNotification_alert_db urgent_db)
next
  case (stored x)
  from processAlert_cases(3) [of ev now x f a w] processAlert_cases(3) [of ev' now x f' a w]
  show ?thesis unfolding stored
    by (auto simp: sendWebhookNotification_alert_db urgent_db)
qed

lemma urgent_console_from:
  assumes "edge_console w1 = edge_console w @ k"
  shows "\<exists>k'. edge_console (urgent ev a w1) = edge_console w @ k'"
proof -
  from urgent_grows [of ev a w1] obtain l where "edge_console (urgent ev a w1) = edge_console w1 @ l"
    by blast
  with assms have "edge_console (urgent ev a w1) = edge_console w @ (k @ l)" by simp
  then show ?thesis by blast
qed

lemma processAlert_swallowed:
  assumes rf: "relay_fails ev f" and c: "edge_console w1 = edge_console w @ k"
  shows "snd (processAlert ev now (Resolved rep) f a w1) = None
       \<and> relay_logged (new_logs w (fst (processAlert ev now (Resolved rep) f a w1)))"
proof (cases "Resolved rep :: unit db_reply settled" rule: reply_cases)
  case (thrown e)
  then show ?thesis by simp
next
  case (refused x e)
  from urgent_console_from [OF c, of ev a] obtain k' where
    "edge_console (urgent ev a w1) = edge_console w @ k'" by blast
  from alert_relay_logged [OF rf this] show ?thesis
    unfolding refused by (simp add: processAlert_cases)
next
  case (stored x)
  let ?w = "w1\<lparr> edge_db := append_notification (the (a_type a))
                    (case titles (the (a_type a)) of None \<Rightarrow> ko_alert | Some t \<Rightarrow> t)
                    (the (a_message a))
                    (case a_severity a of None \<Rightarrow> info | Some s \<Rightarrow> s)
                    (Some (alert_data a)) now (edge_db w1) \<rparr>"
  have "edge_console ?w = edge_console w @ k" using c by simp
  from urgent_console_from [OF this, of ev a] obtain k' where
    "edge_console (urgent ev a ?w) = edge_console w @ k'" by blast
  from alert_relay_logged [OF rf this, of now a] processAlert_cases(3) [of ev now x f a w1]
  show ?thesis unfolding stored by auto
qed

lemma serve_alert_options:
  "req_method req = ''OPTIONS'' \<Longrightarrow>
   serve_notify_alert ev now ins f req w = (\<lparr> resp_status = 200, resp_body = BodyText ''ok'' \<rparr>, w)"
  by (simp add: serve_notify_alert_def)

lemma serve_alert_unparsed:
  "req_method req \<noteq> ''OPTIONS'' \<Longrightarrow> req_json req = Inl e \<Longrightarrow>
   serve_notify_alert ev now ins f req w
     = (\<lparr> resp_status = 500, resp_body = BodyFailure e \<rparr>,
        log (ConsoleError ''Error processing alert:'') w)"
  by (simp add: serve_notify_alert_def)

lemma serve_alert_invalid:
  "req_method req \<noteq> ''OPTIONS'' \<Longrightarrow> req_json req = Inr a \<Longrightarrow>
   \<not> truthy (a_type a) \<or> \<not> truthy (a_message a) \<Longrightarrow>
   serve_notify_alert ev now ins f req w
     = (\<lparr> resp_status = 400, resp_body = BodyFailure ''Missing required fields: type, message'' \<rparr>,
        log (ConsoleLog ''Alert notification triggered:'') w)"
  by (auto simp: serve_notify_alert_def Let_def)

lemma serve_alert_valid:
  "req_method req \<noteq> ''OPTIONS'' \<Longrightarrow> req_json req = Inr a \<Longrightarrow>
   truthy (a_type a) \<Longrightarrow> truthy (a_message a) \<Longrightarrow>
   serve_notify_alert ev now ins f req w =
     (case snd (processAlert ev now ins f a (log (ConsoleLog ''Alert notification triggered:'') w)) of
        Some e \<Rightarrow>
          (\<lparr> resp_status = 500, resp_body = BodyFailure e \<rparr>,
           log (ConsoleError ''Error processing alert:'')
             (fst (processAlert ev now ins f a (log (ConsoleLog ''Alert notification triggered:'') w))))
      | None \<Rightarrow>
          (\<lparr> resp_status = 200, resp_body = BodySuccess ''Alert processed'' \<rparr>,
           fst (processAlert ev now ins f a (log (ConsoleLog ''Alert notification triggered:'') w))))"
  by (simp add: serve_notify_alert_def Let_def split: prod.splits option.splits)

lemma serve_alert_indep:
  "fst (serve_notify_alert ev now ins f req w) = fst (serve_notify_alert ev' now ins f' req w)
   \<and> edge_db (snd (serve_notify_alert ev now ins f req w))
       = edge_db (snd (serve_notify_alert ev' now ins f' req w))"
proof (cases "req_method req = ''OPTIONS''")
  case True
  then show ?thesis by (simp add: serve_alert_options)
next
  case m: False
  show ?thesis
  proof (cases "req_json req")
    case (Inl e)
    with m show ?thesis by (simp add: serve_alert_unparsed)
  next
    case (Inr a)
    show ?thesis
    proof (cases "truthy (a_type a) \<and> truthy (a_message a)")
      case True
      then have ty: "truthy (a_type a)" and msg: "truthy (a_message a)" by simp_all
      let ?w = "log (ConsoleLog ''Alert notification triggered:'') w"
      from processAlert_indep [of ev now ins f a ?w ev' f']
      show ?thesis
        by (simp add: serve_alert_valid [OF m Inr ty msg] log_db split: option.splits)
    next
      case False
      then have "\<not> truthy (a_type a) \<or> \<not> truthy (a_message a)" by simp
      then show ?thesis by (simp add: serve_alert_invalid [OF m Inr])
    qed
  qed
qed

lemma serve_alert_swallowed:
  assumes rf: "relay_fails ev f" and m: "req_method req \<noteq> ''OPTIONS''" and a: "req_json req = Inr a"
    and ty: "truthy (a_type a)" and msg: "truthy (a_message a)"
  shows "fst (serve_notify_alert ev now (Resolved rep) f req w)
           = \<lparr> resp_status = 200, resp_body = BodySuccess ''Alert processed'' \<rparr>
       \<and> relay_logged (new_logs w (snd (serve_notify_alert ev now (Resolved rep) f req w)))"
proof -
  let ?w = "log (ConsoleLog ''Alert notification triggered:'') w"
  have "edge_console ?w = edge_console w @ [ConsoleLog ''Alert notification triggered:'']"
    by (simp add: log_def)
  from processAlert_swallowed [OF rf this, of now rep a] show ?thesis
    by (simp add: serve_alert_valid [OF m a ty msg])
qed

text \<open>
  C8. In both handlers the outcome of the outbound relay has no influence on the HTTP
  response nor on the notifications table: they are the same for any two environments
  and any two outcomes of \<open>fetch\<close>. When the relay is reached (the payload is an insert
  or an execution, or the alert has its type and message, and the insert has not thrown)
  and fails by a missing URL, a rejected \<open>fetch\<close> or a response that is not OK, the
  failure is written to the console and the response is still 200 with \<open>success: true\<close>.
\<close>

theorem relay_failure_swallowed:
  "fst (serve_notify_trade r ev now ins f req w) = fst (serve_notify_trade r ev' now ins f' req w)
   \<and> edge_db (snd (serve_notify_trade r ev now ins f req w))
       = edge_db (snd (serve_notify_trade r ev' now ins f' req w))
   \<and> fst (serve_notify_alert ev now ins f areq w) = fst (serve_notify_alert ev' now ins f' areq w)
   \<and> edge_db (snd (serve_notify_alert ev now ins f areq w))
       = edge_db (snd (serve_notify_alert ev' now ins f' areq w))
   \<and> (relay_fails ev f \<and> req_method req \<noteq> ''OPTIONS'' \<and> req_json req = Inr p
        \<and> (executed_update p \<or> wp_type p = INSERT) \<longrightarrow>
        fst (serve_notify_trade r ev now (Resolved rep) f req w)
          = \<lparr> resp_status = 200, resp_body = BodySuccess ''Notification processed'' \<rparr>
        \<and> relay_logged (new_logs w (snd (serve_notify_trade r ev now (Resolved rep) f req w))))
   \<and> (relay_fails ev f \<and> req_method areq \<noteq> ''OPTIONS'' \<and> req_json areq = Inr a
        \<and> truthy (a_type a) \<and> truthy (a_message a) \<longrightarrow>
        fst (serve_notify_alert ev now (Resolved rep) f areq w)
          = \<lparr> resp_status = 200, resp_body = BodySuccess ''Alert processed'' \<rparr>
        \<and> relay_logged (new_logs w (snd (serve_notify_alert ev now (Resolved rep) f areq w))))"
  using serve_trade_indep [of r ev now ins f req w ev' f']
    serve_alert_indep [of ev now ins f areq w ev' f']
    serve_trade_swallowed [of ev f req p "Resolved rep" rep r now w]
    serve_alert_swallowed [of ev f areq a now rep w]
  by blast

theorem relay_failure_swallowed_witness:
  "fst (serve_notify_trade sample_rendering
          (sample_env\<lparr> NOTIFICATION_WEBHOOK_URL := Some ''https://hooks.example/notify'' \<rparr>)
          ''2026-02-04T09:00:06Z'' (Resolved (Reply None None)) (Rejected ''timeout'')
          update_request empty_edge)
     = \<lparr> resp_status = 200, resp_body = BodySuccess ''Notification processed'' \<rparr>
   \<and> relay_logged (new_logs empty_edge (snd (serve_notify_trade sample_rendering
          (sample_env\<lparr> NOTIFICATION_WEBHOOK_URL := Some ''https://hooks.example/notify'' \<rparr>)
          ''2026-02-04T09:00:06Z'' (Resolved (Reply None None)) (Rejected ''timeout'')
          update_request empty_edge)))
   \<and> fst (serve_notify_alert sample_env ''2026-02-04T09:00:06Z'' (Resolved (Reply None None))
          (Resolved (HttpResponse False 503)) alert_request_sample empty_edge)
     = \<lparr> resp_status = 200, resp_body = BodySuccess ''Alert processed'' \<rparr>"
proof -
  let ?ev = "sample_env\<lparr> NOTIFICATION_WEBHOOK_URL := Some ''https://hooks.example/notify'' \<rparr>"
  have rf: "relay_fails ?ev (Rejected ''timeout'')"
    by (simp add: relay_fails_def)
  have rf': "relay_fails sample_env (Resolved (HttpResponse False 503))"
    by (simp add: relay_fails_def)
  have m: "req_method update_request \<noteq> ''OPTIONS''"
    by (simp add: update_request_def)
  have j: "req_json update_request = Inr update_payload"
    by (simp add: update_request_def)
  have ex: "executed_update update_payload"
    by (simp add: executed_update_def update_payload_def executed_trade_def pending_trade_def)
  have m': "req_method alert_request_sample \<noteq> ''OPTIONS''"
    by (simp add: alert_request_sample_def)
  have j': "req_json alert_request_sample = Inr sample_alert"
    by (simp add: alert_request_sample_def)
  have ty: "truthy (a_type sample_alert) \<and> truthy (a_message sample_alert)"
    by (simp add: truthy_def sample_alert_def)
  from relay_failure_swallowed [where r = sample_rendering and ev = ?ev
      and now = "''2026-02-04T09:00:06Z''" and ins = "Resolved (Reply None None)"
      and f = "Rejected ''timeout''" and req = update_request and w = empty_edge
      and ev' = sample_env and f' = "Resolved (HttpResponse True 200)"
      and areq = alert_request_sample and p = update_payload and rep = "Reply None None"
      and a = sample_alert] rf m j ex
  have t: "fst (serve_notify_trade sample_rendering ?ev ''2026-02-04T09:00:06Z''
               (Resolved (Reply None None)) (Rejected ''timeout'') update_request empty_edge)
            = \<lparr> resp_status = 200, resp_body = BodySuccess ''Notification processed'' \<rparr>
      \<and> relay_logged (new_logs empty_edge (snd (serve_notify_trade sample_rendering ?ev
               ''2026-02-04T09:00:06Z'' (Resolved (Reply None None)) (Rejected ''timeout'')
               update_request empty_edge)))"
    by blast
  from relay_failure_swallowed [where r = sample_rendering and ev = sample_env
      and now = "''2026-02-04T09:00:06Z''" and ins = "Resolved (Reply None None)"
      and f = "Resolved (HttpResponse False 503)" and req = update_request and w = empty_edge
      and ev' = sample_env and f' = "Resolved (HttpResponse True 200)"
      and areq = alert_request_sample and p = update_payload and rep = "Reply None None"
      and a = sample_alert] rf' m' j' ty
  have a: "fst (serve_notify_alert sample_env ''2026-02-04T09:00:06Z'' (Resolved (Reply None None))
          (Resolved (HttpResponse False 503)) alert_request_sample empty_edge)
     = \<lparr> resp_status = 200, resp_body = BodySuccess ''Alert processed'' \<rparr>"
    by blast
  from t a show ?thesis by blast
qed


section \<open>The two paths of a trade execution\<close>

lemma rows_of_type_append:
  "rows_of_type ty (append_notification ty ti msg sev dat created d)
     = rows_of_type ty d @ [\<lparr> n_id = notifications_seq d + 1, n_type = ty, title = ti, message = msg,
          n_severity = sev, n_data = dat, is_read = False, read_at = None,
          n_created_at = created \<rparr>]"
  by (simp add: rows_of_type_def append_notification_def)

lemma rows_of_type_trade_changes:
  "rows_of_type ty (d\<lparr> trade_changes := x \<rparr>) = rows_of_type ty d"
  by (simp add: rows_of_type_def)

lemma trigger_executed:
  assumes "status old \<noteq> ''executed''" and "status new = ''executed''"
    and "executed_quantity new = Some q" and "executed_price new = Some px"
  shows "\<exists>ti msg pl. trigger_notify_trade_changes r now UPDATE (Some old) new d
           = Inr (append_notification ''trade_executed'' ti msg info (Some (trade_data new)) now
                   (d\<lparr> trade_changes := trade_changes d @ [pl] \<rparr>))"
  using assms
  by (simp add: trigger_notify_trade_changes_def notify_trade_changes_def Let_def
      insert_notification_def) blast

lemma trigger_executed_rows:
  assumes "status old \<noteq> ''executed''" and "status new = ''executed''"
    and "executed_quantity new = Some q" and "executed_price new = Some px"
  shows "\<exists>d1. trigger_notify_trade_changes r now UPDATE (Some old) new d = Inr d1
           \<and> length (rows_of_type ''trade_executed'' d1)
               = length (rows_of_type ''trade_executed'' d) + 1"
proof -
  from trigger_executed [OF assms] obtain ti msg pl where
    "trigger_notify_trade_changes r now UPDATE (Some old) new d
       = Inr (append_notification ''trade_executed'' ti msg info (Some (trade_data new)) now
               (d\<lparr> trade_changes := trade_changes d @ [pl] \<rparr>))" by blast
  then show ?thesis by (simp add: rows_of_type_append rows_of_type_trade_changes)
qed

lemma handler_executed_rows:
  assumes "status old \<noteq> ''executed''" and "status new = ''executed''" and "m \<noteq> ''OPTIONS''"
  shows "length (rows_of_type ''trade_executed'' (edge_db (snd
           (serve_notify_trade r ev now (Resolved (Reply x None)) f
              \<lparr> req_method = m,
                req_json = Inr \<lparr> wp_type = UPDATE, wp_table = ''trades'', wp_record = new,
                                 wp_old_record = Some old, wp_schema = ''public'' \<rparr> \<rparr> w))))
         = length (rows_of_type ''trade_executed'' (edge_db w)) + 1"
proof -
  let ?p = "\<lparr> wp_type = UPDATE, wp_table = ''trades'', wp_record = new,
              wp_old_record = Some old, wp_schema = ''public'' \<rparr>"
  let ?req = "\<lparr> req_method = m, req_json = Inr ?p \<rparr>"
  have ex: "executed_update ?p" using assms by (simp add: executed_update_def)
  have m: "req_method ?req \<noteq> ''OPTIONS''" using assms by simp
  have j: "req_json ?req = Inr ?p" by simp
  show ?thesis
    by (simp add: serve_trade_executed [OF m j ex] sendTradeExecutedNotification_cases sendWebhookNotification_db
        log_db rows_of_type_append)
qed

lemma after_trigger_eq:
  "after_trigger = Inr \<lparr> notifications_tbl =
       [\<lparr> n_id = 1, n_type = ''trade_executed'', title = ko_buy_filled,
          message = ''Samsung'' @ '' '' @ ko_buy @ '' '' @ ''10'' @ ko_shares_at_won @ ''70000.00'',
          n_severity = info, n_data = Some (trade_data executed_trade), is_read = False,
          read_at = None, n_created_at = ''2026-02-04T09:00:05Z'' \<rparr>],
     notifications_seq = 1, strategies_tbl = [],
     trade_changes = [\<lparr> wp_type = UPDATE, wp_table = ''trades'', wp_record = executed_trade,
                      wp_old_record = Some pending_trade, wp_schema = ''public'' \<rparr>] \<rparr>"
  by (simp add: after_trigger_def trigger_notify_trade_changes_def notify_trade_changes_def
      Let_def insert_notification_def append_notification_def empty_db_def
      executed_trade_def pending_trade_def sample_rendering_def)

text \<open>
  C2, as stated, fails. The claim is that an update of a trade from pending to executed
  produces exactly one \<open>trade_executed\<close> notification over the SQL trigger and the
  notify-trade handler together. Each of the two inserts its own row and neither looks
  for the other's: after the trigger has run for the sample update the table has one
  such row, and after the handler has served the payload of the same update it has two.
\<close>

theorem trade_executed_duplicated:
  "map n_type (notifications_tbl (projr after_trigger)) = [''trade_executed'']
   \<and> map n_type (notifications_tbl (edge_db (snd
        (serve_notify_trade sample_rendering sample_env ''2026-02-04T09:00:06Z''
           (Resolved (Reply None None)) (Resolved (HttpResponse True 200)) update_request
           (empty_edge\<lparr> edge_db := projr after_trigger \<rparr>)))))
       = [''trade_executed'', ''trade_executed'']"
proof -
  have ex: "executed_update update_payload"
    by (simp add: executed_update_def update_payload_def executed_trade_def pending_trade_def)
  have m: "req_method update_request \<noteq> ''OPTIONS''" by (simp add: update_request_def)
  have j: "req_json update_request = Inr update_payload"
    by (simp add: update_request_def)
  show ?thesis
    by (simp add: serve_trade_executed [OF m j ex] update_payload_def sendTradeExecutedNotification_cases sendWebhookNotification_db
        log_db after_trigger_eq append_notification_def empty_edge_def)
qed

text \<open>
  C2, amended. For an update of a trade into the status executed, with its executed
  quantity and price set, the SQL trigger inserts exactly one \<open>trade_executed\<close>
  notification, and the notify-trade handler, served the payload of that update with
  its insert accepted, inserts exactly one as well. Where both paths handle the same
  update there are two such rows: nothing removes the duplicate.
\<close>

theorem trade_executed_rows_per_path:
  assumes "status old \<noteq> ''executed''" and "status new = ''executed''"
    and "executed_quantity new = Some q" and "executed_price new = Some px"
    and "m \<noteq> ''OPTIONS''"
  shows "\<exists>d1. trigger_notify_trade_changes r now UPDATE (Some old) new (edge_db w) = Inr d1
     \<and> length (rows_of_type ''trade_executed'' d1)
         = length (rows_of_type ''trade_executed'' (edge_db w)) + 1
     \<and> length (rows_of_type ''trade_executed'' (edge_db (snd
           (serve_notify_trade r ev now' (Resolved (Reply x None)) f
              \<lparr> req_method = m,
                req_json = Inr \<lparr> wp_type = UPDATE, wp_table = ''trades'', wp_record = new,
                                 wp_old_record = Some old, wp_schema = ''public'' \<rparr> \<rparr> w))))
         = length (rows_of_type ''trade_executed'' (edge_db w)) + 1
     \<and> length (rows_of_type ''trade_executed'' (edge_db (snd
           (serve_notify_trade r ev now' (Resolved (Reply x None)) f
              \<lparr> req_method = m,
                req_json = Inr \<lparr> wp_type = UPDATE, wp_table = ''trades'', wp_record = new,
                                 wp_old_record = Some old, wp_schema = ''public'' \<rparr> \<rparr>
              (w\<lparr> edge_db := d1 \<rparr>)))))
         = length (rows_of_type ''trade_executed'' (edge_db w)) + 2"
proof -
  from trigger_executed_rows [OF assms(1-4), of r now "edge_db w"] obtain d1 where
    t: "trigger_notify_trade_changes r now UPDATE (Some old) new (edge_db w) = Inr d1"
    and n: "length (rows_of_type ''trade_executed'' d1)
         = length (rows_of_type ''trade_executed'' (edge_db w)) + 1" by blast
  have h1: "length (rows_of_type ''trade_executed'' (edge_db (snd
           (serve_notify_trade r ev now' (Resolved (Reply x None)) f
              \<lparr> req_method = m,
                req_json = Inr \<lparr> wp_type = UPDATE, wp_table = ''trades'', wp_record = new,
                                 wp_old_record = Some old, wp_schema = ''public'' \<rparr> \<rparr> w))))
         = length (rows_of_type ''trade_executed'' (edge_db w)) + 1"
    by (rule handler_executed_rows [OF assms(1,2,5)])
  have h2: "length (rows_of_type ''trade_executed'' (edge_db (snd
           (serve_notify_trade r ev now' (Resolved (Reply x None)) f
              \<lparr> req_method = m,
                req_json = Inr \<lparr> wp_type = UPDATE, wp_table = ''trades'', wp_record = new,
                                 wp_old_record = Some old, wp_schema = ''public'' \<rparr> \<rparr>
              (w\<lparr> edge_db := d1 \<rparr>)))))
         = length (rows_of_type ''trade_executed'' (edge_db w)) + 2"
    using handler_executed_rows [OF assms(1,2,5), of r ev now' x f "w\<lparr> edge_db := d1 \<rparr>"] n
    by simp
  from t n h1 h2 show ?thesis by blast
qed

theorem trade_executed_rows_per_path_witness:
  "\<exists>d1. trigger_notify_trade_changes sample_rendering ''2026-02-04T09:00:05Z'' UPDATE
           (Some pending_trade) executed_trade empty_db = Inr d1
     \<and> length (rows_of_type ''trade_executed'' d1) = 1"
  using trade_executed_rows_per_path [of pending_trade executed_trade 10 70000 "''POST''" sample_rendering
      "''2026-02-04T09:00:05Z''" empty_edge
      sample_env "''2026-02-04T09:00:06Z''" None "Resolved (HttpResponse True 200)"]
  by (simp add: pending_trade_def executed_trade_def empty_db_def empty_edge_def rows_of_type_def)
    blast

end
